theory Spec2Isabelle
  imports Complex_Main "HOL-Library.Char_ord" "HOL-Library.List_Lexorder" "HOL-Library.Log_Nat"
begin

section \<open>Data model: pandas tables as the pipeline sees them\<close>

text \<open>
  The pipeline of \<^verbatim>\<open>backend/funcs.py\<close> works on pandas DataFrames. A table is
  modelled by its number of rows and its columns in order, each a label with the cells
  of that column. Labels may repeat in the model, as they may in pandas after a
  concatenation of columns.

  A cell is an integer, a float, a string or the missing value. A float cell holds
  the number that the float stands for, a rational; sums, differences, products and
  quotients of cells are exact, and there are no infinities. Integers are unbounded.
  Boolean and date cells are outside the model.
\<close>

datatype cell = IntV int | FloatV rat | StrV string | NaN

record dataframe =
  nrows :: nat
  cols :: "(string \<times> cell list) list"

text \<open>
  Exceptions are values. \<open>KeyError\<close>, \<open>TypeError\<close> and \<open>ValueError\<close> are the
  Python exceptions of the same names. \<open>Unmodelled\<close> is not a Python exception: it
  marks an input on which pandas goes on but whose behaviour depends on details that
  this model leaves out (the text and the ordering of numeric one-hot levels, a
  division by zero on numpy arrays).
\<close>

datatype pyerr = KeyError | TypeError | ValueError | Unmodelled

definition and_then :: "pyerr + 'a \<Rightarrow> ('a \<Rightarrow> pyerr + 'b) \<Rightarrow> pyerr + 'b" where
  "and_then r f = (case r of Inl e \<Rightarrow> Inl e | Inr x \<Rightarrow> f x)"

definition colnames :: "dataframe \<Rightarrow> string list" where
  "colnames df = map fst (cols df)"

text \<open>\<^verbatim>\<open>df[col]\<close>: the column of that label, \<open>KeyError\<close> when there is none.\<close>

definition getitem :: "dataframe \<Rightarrow> string \<Rightarrow> pyerr + cell list" where
  "getitem df col = (case map_of (cols df) col of None \<Rightarrow> Inl KeyError | Some xs \<Rightarrow> Inr xs)"

text \<open>
  \<^verbatim>\<open>df[col] = series\<close>: an existing label keeps its position and gets the new cells,
  a new label is appended as the last column.
\<close>

definition setitem :: "dataframe \<Rightarrow> string \<Rightarrow> cell list \<Rightarrow> dataframe" where
  "setitem df col xs =
     (if col \<in> set (colnames df)
      then df\<lparr>cols := map (\<lambda>(n, ys). if n = col then (n, xs) else (n, ys)) (cols df)\<rparr>
      else df\<lparr>cols := cols df @ [(col, xs)]\<rparr>)"

text \<open>\<^verbatim>\<open>df[col] = scalar\<close>: the scalar in every row.\<close>

definition setitem_scalar :: "dataframe \<Rightarrow> string \<Rightarrow> cell \<Rightarrow> dataframe" where
  "setitem_scalar df col v = setitem df col (replicate (nrows df) v)"

text \<open>
  \<^verbatim>\<open>df[col] = ndarray\<close>: an array whose length is not the number of rows raises
  \<open>ValueError\<close>.
\<close>

definition setitem_array :: "dataframe \<Rightarrow> string \<Rightarrow> cell list \<Rightarrow> pyerr + dataframe" where
  "setitem_array df col xs =
     (if length xs = nrows df then Inr (setitem df col xs) else Inl ValueError)"

text \<open>
  \<^verbatim>\<open>df[labels]\<close> with a list of labels: \<open>KeyError\<close> when a label is missing;
  otherwise, for each label of the list in turn, every column that carries it.
\<close>

definition select_columns :: "dataframe \<Rightarrow> string list \<Rightarrow> pyerr + dataframe" where
  "select_columns df labels =
     (if list_all (\<lambda>l. l \<in> set (colnames df)) labels
      then Inr (df\<lparr>cols := concat (map (\<lambda>l. filter (\<lambda>c. fst c = l) (cols df)) labels)\<rparr>)
      else Inl KeyError)"

text \<open>\<^verbatim>\<open>df.drop(labels, axis=1)\<close> for labels that are all present.\<close>

definition drop_columns :: "dataframe \<Rightarrow> string list \<Rightarrow> dataframe" where
  "drop_columns df labels = df\<lparr>cols := filter (\<lambda>c. fst c \<notin> set labels) (cols df)\<rparr>"

subsection \<open>Arithmetic on cells and on columns\<close>

text \<open>
  Column arithmetic is elementwise. A missing operand gives a missing result (for
  object columns pandas falls back to an operation masked to the pairs without a
  missing value); every other pair follows the Python operator.
\<close>

fun py_add :: "cell \<Rightarrow> cell \<Rightarrow> pyerr + cell" where
  "py_add NaN _ = Inr NaN"
| "py_add _ NaN = Inr NaN"
| "py_add (IntV a) (IntV b) = Inr (IntV (a + b))"
| "py_add (IntV a) (FloatV b) = Inr (FloatV (of_int a + b))"
| "py_add (FloatV a) (IntV b) = Inr (FloatV (a + of_int b))"
| "py_add (FloatV a) (FloatV b) = Inr (FloatV (a + b))"
| "py_add (StrV a) (StrV b) = Inr (StrV (a @ b))"
| "py_add _ _ = Inl TypeError"

fun py_sub :: "cell \<Rightarrow> cell \<Rightarrow> pyerr + cell" where
  "py_sub NaN _ = Inr NaN"
| "py_sub _ NaN = Inr NaN"
| "py_sub (IntV a) (IntV b) = Inr (IntV (a - b))"
| "py_sub (IntV a) (FloatV b) = Inr (FloatV (of_int a - b))"
| "py_sub (FloatV a) (IntV b) = Inr (FloatV (a - of_int b))"
| "py_sub (FloatV a) (FloatV b) = Inr (FloatV (a - b))"
| "py_sub _ _ = Inl TypeError"

fun py_mul :: "cell \<Rightarrow> cell \<Rightarrow> pyerr + cell" where
  "py_mul NaN _ = Inr NaN"
| "py_mul _ NaN = Inr NaN"
| "py_mul (IntV a) (IntV b) = Inr (IntV (a * b))"
| "py_mul (IntV a) (FloatV b) = Inr (FloatV (of_int a * b))"
| "py_mul (FloatV a) (IntV b) = Inr (FloatV (a * of_int b))"
| "py_mul (FloatV a) (FloatV b) = Inr (FloatV (a * b))"
| "py_mul (StrV s) (IntV n) = Inr (StrV (concat (replicate (nat n) s)))"
| "py_mul (IntV n) (StrV s) = Inr (StrV (concat (replicate (nat n) s)))"
| "py_mul _ _ = Inl TypeError"

fun py_abs :: "cell \<Rightarrow> pyerr + cell" where
  "py_abs NaN = Inr NaN"
| "py_abs (IntV a) = Inr (IntV \<bar>a\<bar>)"
| "py_abs (FloatV a) = Inr (FloatV \<bar>a\<bar>)"
| "py_abs (StrV s) = Inl TypeError"

text \<open>True division by an integer constant; the pipeline only divides by 20.\<close>

definition py_truediv :: "cell \<Rightarrow> int \<Rightarrow> pyerr + cell" where
  "py_truediv c d =
     (if d = 0 then Inl Unmodelled
      else case c of
        NaN \<Rightarrow> Inr NaN
      | IntV a \<Rightarrow> Inr (FloatV (of_int a / of_int d))
      | FloatV a \<Rightarrow> Inr (FloatV (a / of_int d))
      | StrV s \<Rightarrow> Inl TypeError)"

text \<open>
  \<^verbatim>\<open>Series.clip(lower=0)\<close> on one cell: a value below 0 becomes 0, a missing value
  stays missing.
\<close>

fun clip_lower0 :: "cell \<Rightarrow> pyerr + cell" where
  "clip_lower0 NaN = Inr NaN"
| "clip_lower0 (IntV a) = Inr (IntV (max a 0))"
| "clip_lower0 (FloatV a) = Inr (FloatV (max a 0))"
| "clip_lower0 (StrV s) = Inl TypeError"

fun series_apply :: "(cell \<Rightarrow> pyerr + cell) \<Rightarrow> cell list \<Rightarrow> pyerr + cell list" where
  "series_apply f [] = Inr []"
| "series_apply f (x # xs) =
     (case f x of Inl e \<Rightarrow> Inl e
      | Inr y \<Rightarrow> (case series_apply f xs of Inl e \<Rightarrow> Inl e | Inr ys \<Rightarrow> Inr (y # ys)))"

text \<open>
  Two columns of one table share its index, so the operation pairs them by position.
\<close>

fun series_binop ::
  "(cell \<Rightarrow> cell \<Rightarrow> pyerr + cell) \<Rightarrow> cell list \<Rightarrow> cell list \<Rightarrow> pyerr + cell list" where
  "series_binop f (x # xs) (y # ys) =
     (case f x y of Inl e \<Rightarrow> Inl e
      | Inr z \<Rightarrow> (case series_binop f xs ys of Inl e \<Rightarrow> Inl e | Inr zs \<Rightarrow> Inr (z # zs)))"
| "series_binop f _ _ = Inr []"

subsection \<open>\<^verbatim>\<open>Series.map\<close> with a dictionary\<close>

text \<open>
  \<^verbatim>\<open>series.map(d)\<close> looks every cell up in the dictionary \<open>d\<close>; a cell that is not a
  key becomes the missing value, and nothing is raised. The result is an integer
  column when every cell was found and a float column otherwise.
\<close>

definition dict_get :: "(string \<times> int) list \<Rightarrow> cell \<Rightarrow> int option" where
  "dict_get d c = (case c of StrV s \<Rightarrow> map_of d s | _ \<Rightarrow> None)"

definition series_map :: "(string \<times> int) list \<Rightarrow> cell list \<Rightarrow> cell list" where
  "series_map d xs =
     (if list_all (\<lambda>c. dict_get d c \<noteq> None) xs
      then map (\<lambda>c. case dict_get d c of Some v \<Rightarrow> IntV v | None \<Rightarrow> NaN) xs
      else map (\<lambda>c. case dict_get d c of Some v \<Rightarrow> FloatV (of_int v) | None \<Rightarrow> NaN) xs)"

subsection \<open>\<^verbatim>\<open>pandas.get_dummies\<close> with \<^verbatim>\<open>drop_first=True, dtype=int\<close>\<close>

text \<open>
  The levels of a nominal column are its distinct strings in sorted order; missing
  cells have no level. The first level is dropped, and each remaining level \<open>l\<close>
  gives an indicator column \<^verbatim>\<open><field>_<l>\<close>. A column with a numeric cell is
  \<open>Unmodelled\<close>.
\<close>

fun is_numeric :: "cell \<Rightarrow> bool" where
  "is_numeric (IntV a) = True"
| "is_numeric (FloatV a) = True"
| "is_numeric _ = False"

fun strings_of :: "cell list \<Rightarrow> string list" where
  "strings_of [] = []"
| "strings_of (StrV s # xs) = s # strings_of xs"
| "strings_of (_ # xs) = strings_of xs"

definition levels_of :: "cell list \<Rightarrow> pyerr + string list" where
  "levels_of xs =
     (if list_ex is_numeric xs then Inl Unmodelled
      else Inr (sort (remdups (strings_of xs))))"

definition dummies_1d :: "string \<Rightarrow> cell list \<Rightarrow> pyerr + (string \<times> cell list) list" where
  "dummies_1d prefix xs =
     and_then (levels_of xs) (\<lambda>levels.
       Inr (map (\<lambda>l. (prefix @ ''_'' @ l, map (\<lambda>c. IntV (if c = StrV l then 1 else 0)) xs))
              (drop 1 levels)))"

fun dummies_all :: "dataframe \<Rightarrow> string list \<Rightarrow> pyerr + (string \<times> cell list) list" where
  "dummies_all df [] = Inr []"
| "dummies_all df (c # cs) =
     and_then (getitem df c) (\<lambda>xs.
     and_then (dummies_1d c xs) (\<lambda>d.
     and_then (dummies_all df cs) (\<lambda>ds. Inr (d @ ds))))"

definition get_dummies :: "dataframe \<Rightarrow> string list \<Rightarrow> pyerr + dataframe" where
  "get_dummies df columns =
     (if list_all (\<lambda>c. c \<in> set (colnames df)) columns
      then and_then (dummies_all df columns) (\<lambda>ds.
             Inr (df\<lparr>cols := cols (drop_columns df columns) @ ds\<rparr>))
      else Inl KeyError)"

section \<open>The pipeline of \<^verbatim>\<open>backend/funcs.py\<close>\<close>

definition BINARY_MAPPING :: "(string \<times> int) list" where
  "BINARY_MAPPING = [(''yes'', 1), (''no'', 0)]"

definition SEX_MAPPING :: "(string \<times> int) list" where
  "SEX_MAPPING = [(''F'', 1), (''M'', 0)]"

definition ADDRESS_MAPPING :: "(string \<times> int) list" where
  "ADDRESS_MAPPING = [(''U'', 1), (''R'', 0)]"

definition FAMSIZE_MAPPING :: "(string \<times> int) list" where
  "FAMSIZE_MAPPING = [(''LE3'', 1), (''GT3'', 0)]"

definition PSTATUS_MAPPING :: "(string \<times> int) list" where
  "PSTATUS_MAPPING = [(''T'', 1), (''A'', 0)]"

subsection \<open>\<^verbatim>\<open>preprocess_data\<close>\<close>

definition drop_cols :: "string list" where
  "drop_cols = [''StudentID'', ''FirstName'', ''FamilyName'']"

definition cols_yes_no :: "string list" where
  "cols_yes_no = [''schoolsup'', ''famsup'', ''paid'', ''activities'', ''nursery'',
                  ''higher'', ''internet'', ''romantic'']"

definition nominal_cols :: "string list" where
  "nominal_cols = [''Mjob'', ''Fjob'', ''reason'', ''guardian'']"

text \<open>\<^verbatim>\<open>df_proc[col] = df_proc[col].map(mapping)\<close>\<close>

definition map_column :: "dataframe \<Rightarrow> string \<Rightarrow> (string \<times> int) list \<Rightarrow> pyerr + dataframe" where
  "map_column df col d = and_then (getitem df col) (\<lambda>xs. Inr (setitem df col (series_map d xs)))"

text \<open>The loop \<^verbatim>\<open>for col in cols_yes_no\<close>.\<close>

fun map_columns :: "dataframe \<Rightarrow> string list \<Rightarrow> (string \<times> int) list \<Rightarrow> pyerr + dataframe" where
  "map_columns df [] d = Inr df"
| "map_columns df (c # cs) d = and_then (map_column df c d) (\<lambda>df'. map_columns df' cs d)"

text \<open>
  Lines 24 to 35: the identifier columns that are present are dropped, then the twelve
  two-valued fields are mapped.
\<close>

definition binary_mappings :: "dataframe \<Rightarrow> pyerr + dataframe" where
  "binary_mappings df =
     (let df_proc = drop_columns df (filter (\<lambda>c. c \<in> set (colnames df)) drop_cols) in
      and_then (map_columns df_proc cols_yes_no BINARY_MAPPING) (\<lambda>df_proc.
      and_then (map_column df_proc ''sex'' SEX_MAPPING) (\<lambda>df_proc.
      and_then (map_column df_proc ''address'' ADDRESS_MAPPING) (\<lambda>df_proc.
      and_then (map_column df_proc ''famsize'' FAMSIZE_MAPPING) (\<lambda>df_proc.
      map_column df_proc ''Pstatus'' PSTATUS_MAPPING)))))"

text \<open>
  Lines 42 to 47. Python evaluates the operands from left to right, so in line 47 the
  product of \<^verbatim>\<open>Total_Alcohol\<close> with itself is computed before \<^verbatim>\<open>goout\<close> is
  looked up.
\<close>

definition feature_engineering :: "dataframe \<Rightarrow> pyerr + dataframe" where
  "feature_engineering df =
     and_then (getitem df ''Medu'') (\<lambda>medu.
     and_then (getitem df ''Fedu'') (\<lambda>fedu.
     and_then (series_binop py_add medu fedu) (\<lambda>total.
     let df = setitem df ''Parent_Edu_Total'' total in
     and_then (getitem df ''Medu'') (\<lambda>medu.
     and_then (getitem df ''Fedu'') (\<lambda>fedu.
     and_then (series_binop py_sub medu fedu) (\<lambda>diff.
     and_then (series_apply py_abs diff) (\<lambda>adiff.
     let df = setitem df ''Parent_Edu_Diff'' adiff in
     and_then (getitem df ''Dalc'') (\<lambda>dalc.
     and_then (getitem df ''Walc'') (\<lambda>walc.
     and_then (series_apply (\<lambda>c. py_mul c (IntV 2)) walc) (\<lambda>walc2.
     and_then (series_binop py_add dalc walc2) (\<lambda>alc.
     let df = setitem df ''Total_Alcohol'' alc in
     and_then (getitem df ''Total_Alcohol'') (\<lambda>a1.
     and_then (getitem df ''Total_Alcohol'') (\<lambda>a2.
     and_then (series_binop py_mul a1 a2) (\<lambda>sq.
     and_then (getitem df ''goout'') (\<lambda>goout.
     and_then (series_binop py_mul sq goout) (\<lambda>party.
     Inr (setitem df ''Party_Life'' party)))))))))))))))))"

text \<open>
  Lines 53 to 56: every training column that is missing is added with 0 in every
  row, then the table is indexed by the list of training columns.
\<close>

fun fill_missing :: "dataframe \<Rightarrow> string list \<Rightarrow> dataframe" where
  "fill_missing df [] = df"
| "fill_missing df (c # cs) =
     fill_missing (if c \<notin> set (colnames df) then setitem_scalar df c (IntV 0) else df) cs"

definition reconcile :: "dataframe \<Rightarrow> string list \<Rightarrow> pyerr + dataframe" where
  "reconcile df training_columns = select_columns (fill_missing df training_columns) training_columns"

text \<open>
  \<^verbatim>\<open>preprocess_data(df, training_columns=None)\<close>. Its first statement copies the
  argument, and every later statement writes to that copy or rebinds the local name,
  so the function is modelled on the value of the table it is given.
\<close>

definition preprocess_data :: "dataframe \<Rightarrow> string list option \<Rightarrow> pyerr + dataframe" where
  "preprocess_data df training_columns =
     and_then (binary_mappings df) (\<lambda>df_proc.
     and_then (get_dummies df_proc nominal_cols) (\<lambda>df_proc.
     and_then (feature_engineering df_proc) (\<lambda>df_proc.
     case training_columns of
       None \<Rightarrow> Inr df_proc
     | Some tc \<Rightarrow> reconcile df_proc tc)))"

subsection \<open>\<^verbatim>\<open>create_ideal_profile\<close>\<close>

text \<open>
  \<^verbatim>\<open>create_ideal_profile\<close> copies its argument and then assigns to columns of the
  copy in place. Whether the caller's table is touched depends on that copy, so the
  tables live in a store: a reference is a position in the list of allocated tables.
\<close>

type_synonym ref = nat
type_synonym store = "dataframe list"

definition alloc :: "store \<Rightarrow> dataframe \<Rightarrow> ref \<times> store" where
  "alloc h df = (length h, h @ [df])"

text \<open>\<^verbatim>\<open>df.copy()\<close>: a new table with the same content.\<close>

definition df_copy :: "store \<Rightarrow> ref \<Rightarrow> ref \<times> store" where
  "df_copy h r = alloc h (h ! r)"

text \<open>\<^verbatim>\<open>df[col] = scalar\<close> on the table a reference points to.\<close>

definition assign_scalar :: "store \<Rightarrow> ref \<Rightarrow> string \<Rightarrow> cell \<Rightarrow> store" where
  "assign_scalar h r col v = h[r := setitem_scalar (h ! r) col v]"

definition create_ideal_profile :: "store \<Rightarrow> ref \<Rightarrow> ref \<times> store" where
  "create_ideal_profile h df_raw =
     (let (df_ideal, h) = df_copy h df_raw;
          h = assign_scalar h df_ideal ''studytime'' (IntV 4);
          h = assign_scalar h df_ideal ''Dalc'' (IntV 1);
          h = assign_scalar h df_ideal ''Walc'' (IntV 1);
          h = assign_scalar h df_ideal ''absences'' (IntV 0);
          h = assign_scalar h df_ideal ''goout'' (IntV 2)
      in (df_ideal, h))"

subsection \<open>\<^verbatim>\<open>generate_dashboard_data\<close>\<close>

text \<open>
  \<^verbatim>\<open>np.round(x, 2)\<close> on an array of float64: numpy multiplies by 100, rounds to
  the nearest integer with \<^verbatim>\<open>rint\<close> (a tie to the even one) and divides by 100,
  and the product and the quotient are float64 operations, each rounded to the nearest
  float64 (53 significant bits, a tie to the even one). Overflow and subnormal numbers
  are left out: grades are far from both.
\<close>

definition rint :: "rat \<Rightarrow> int" where
  "rint y =
     (let f = \<lfloor>y\<rfloor>; d = y - of_int f in
      if d < 1 / 2 then f
      else if 1 / 2 < d then f + 1
      else if even f then f else f + 1)"

text \<open>\<open>y\<close> times 2 to the power \<open>e\<close>, for an integer \<open>e\<close> of either sign.\<close>

definition scale2 :: "rat \<Rightarrow> int \<Rightarrow> rat" where
  "scale2 y e = (if 0 \<le> e then y * 2 ^ nat e else y / 2 ^ nat (- e))"

text \<open>
  The binary exponent of a number other than 0: the integer \<open>e\<close> with
  \<open>2 ^ e \<le> \<bar>y\<bar> < 2 ^ (e + 1)\<close>, found from the bit lengths of numerator and
  denominator.
\<close>

definition binary_exponent :: "rat \<Rightarrow> int" where
  "binary_exponent y =
     (let (n, d) = quotient_of \<bar>y\<bar>; k = bitlen n - bitlen d
      in if scale2 1 k \<le> \<bar>y\<bar> then k else k - 1)"

text \<open>The float64 nearest to \<open>y\<close>: \<open>y\<close> rounded to 53 significant bits.\<close>

definition float64 :: "rat \<Rightarrow> rat" where
  "float64 y =
     (if y = 0 then 0
      else let e = binary_exponent y - 52
           in scale2 (of_int (rint (scale2 y (- e)))) e)"

definition np_round2 :: "rat \<Rightarrow> rat" where
  "np_round2 x = float64 (of_int (rint (float64 (x * 100))) / 100)"

text \<open>
  The three loads of line 107 to 109 are the arguments: the table read from the CSV
  file, the trained model and the list of feature columns. The model is opaque: a
  function from the encoded table to its predictions, or an exception.
  The table just loaded is allocated first; \<^verbatim>\<open>df_raw\<close> is its reference.
\<close>

definition passthrough_cols :: "string list" where
  "passthrough_cols = [''StudentID'', ''FirstName'', ''FamilyName'', ''FinalGrade'']"

definition generate_dashboard_data ::
  "(dataframe \<Rightarrow> pyerr + rat list) \<Rightarrow> string list \<Rightarrow> dataframe \<Rightarrow> pyerr + dataframe" where
  "generate_dashboard_data model feature_cols loaded =
     (let (df_raw, h) = alloc [] loaded;
          (df_ideal_raw, h) = create_ideal_profile h df_raw in
      and_then (preprocess_data (h ! df_ideal_raw) (Some feature_cols)) (\<lambda>X_ideal.
      and_then (model X_ideal) (\<lambda>potential_preds.
      and_then (select_columns (h ! df_raw) passthrough_cols) (\<lambda>results.
      and_then (setitem_array results ''Potential_Grade''
                  (map (\<lambda>p. FloatV (np_round2 p)) potential_preds)) (\<lambda>results.
      and_then (getitem results ''Potential_Grade'') (\<lambda>pg.
      and_then (getitem results ''FinalGrade'') (\<lambda>fg.
      and_then (series_binop py_sub pg fg) (\<lambda>margin.
      let results = setitem results ''Improvability_Margin'' margin in
      and_then (getitem results ''Improvability_Margin'') (\<lambda>margin.
      and_then (series_apply clip_lower0 margin) (\<lambda>clipped.
      let results = setitem results ''Improvability_Margin'' clipped in
      and_then (getitem results ''Improvability_Margin'') (\<lambda>margin.
      and_then (series_apply (\<lambda>c. py_truediv c 20) margin) (\<lambda>q.
      and_then (series_apply (py_sub (IntV 1)) q) (\<lambda>score.
      Inr (setitem results ''Complexity_Score'' score))))))))))))))"

section \<open>Notions used in the statements\<close>

text \<open>
  The table that \<^verbatim>\<open>create_ideal_profile\<close> leaves in its copy: the five assignments
  of lines 87 to 91 applied in turn.
\<close>

definition ideal_table :: "dataframe \<Rightarrow> dataframe" where
  "ideal_table df =
     setitem_scalar (setitem_scalar (setitem_scalar (setitem_scalar (setitem_scalar df
       ''studytime'' (IntV 4)) ''Dalc'' (IntV 1)) ''Walc'' (IntV 1)) ''absences'' (IntV 0))
       ''goout'' (IntV 2)"

text \<open>The columns that \<^verbatim>\<open>create_ideal_profile\<close> assigns.\<close>

definition overridden_cols :: "string list" where
  "overridden_cols = [''studytime'', ''Dalc'', ''Walc'', ''absences'', ''goout'']"

text \<open>
  A table as \<^verbatim>\<open>read_csv\<close> delivers it: the labels are distinct and every column has
  one cell per row.
\<close>

definition well_formed :: "dataframe \<Rightarrow> bool" where
  "well_formed df = (distinct (colnames df) \<and> list_all (\<lambda>c. length (snd c) = nrows df) (cols df))"

text \<open>The columns of the table that \<^verbatim>\<open>generate_dashboard_data\<close> returns.\<close>

definition dashboard_cols :: "string list" where
  "dashboard_cols = passthrough_cols @ [''Potential_Grade'', ''Improvability_Margin'', ''Complexity_Score'']"

text \<open>The number a grade cell holds, if it holds one.\<close>

fun grade_value :: "cell \<Rightarrow> rat option" where
  "grade_value (IntV a) = Some (of_int a)"
| "grade_value (FloatV a) = Some a"
| "grade_value _ = None"

text \<open>
  The twelve two-valued fields of lines 28 to 35, each with its dictionary, and the
  sixteen fields that the mapping and one-hot steps read.
\<close>

definition categorical_fields :: "(string \<times> (string \<times> int) list) list" where
  "categorical_fields =
     map (\<lambda>c. (c, BINARY_MAPPING)) cols_yes_no @
     [(''sex'', SEX_MAPPING), (''address'', ADDRESS_MAPPING), (''famsize'', FAMSIZE_MAPPING),
      (''Pstatus'', PSTATUS_MAPPING)]"

definition required_fields :: "string list" where
  "required_fields = map fst categorical_fields @ nominal_cols"

text \<open>The mapping step as one loop over fields with their dictionaries.\<close>

fun map_fields :: "dataframe \<Rightarrow> (string \<times> (string \<times> int) list) list \<Rightarrow> pyerr + dataframe" where
  "map_fields df [] = Inr df"
| "map_fields df ((c, d) # fs) = and_then (map_column df c d) (\<lambda>df'. map_fields df' fs)"

text \<open>The columns that lines 42 to 47 assign.\<close>

definition engineered_cols :: "string list" where
  "engineered_cols = [''Parent_Edu_Total'', ''Parent_Edu_Diff'', ''Total_Alcohol'', ''Party_Life'']"

subsection \<open>Example tables\<close>

text \<open>
  One student with \<^verbatim>\<open>studytime=1, Dalc=3, Walc=4, absences=10, goout=5, Medu=2, Fedu=2\<close>
  and the recorded grade \<open>g\<close>, and the same student after \<^verbatim>\<open>create_ideal_profile\<close>.
\<close>

definition student :: "int \<Rightarrow> dataframe" where
  "student g = \<lparr>nrows = 1, cols =
     [(''StudentID'', [IntV 1]), (''FirstName'', [StrV ''Ada'']), (''FamilyName'', [StrV ''Byron'']),
      (''sex'', [StrV ''F'']), (''address'', [StrV ''U'']), (''famsize'', [StrV ''GT3'']),
      (''Pstatus'', [StrV ''T'']), (''Medu'', [IntV 2]), (''Fedu'', [IntV 2]),
      (''Mjob'', [StrV ''teacher'']), (''Fjob'', [StrV ''other'']), (''reason'', [StrV ''home'']),
      (''guardian'', [StrV ''mother'']), (''studytime'', [IntV 1]),
      (''schoolsup'', [StrV ''no'']), (''famsup'', [StrV ''yes'']), (''paid'', [StrV ''no'']),
      (''activities'', [StrV ''yes'']), (''nursery'', [StrV ''yes'']), (''higher'', [StrV ''yes'']),
      (''internet'', [StrV ''yes'']), (''romantic'', [StrV ''no'']),
      (''goout'', [IntV 5]), (''Dalc'', [IntV 3]), (''Walc'', [IntV 4]), (''absences'', [IntV 10]),
      (''FinalGrade'', [IntV g])]\<rparr>"

definition student_ideal :: "int \<Rightarrow> dataframe" where
  "student_ideal g = \<lparr>nrows = 1, cols =
     [(''StudentID'', [IntV 1]), (''FirstName'', [StrV ''Ada'']), (''FamilyName'', [StrV ''Byron'']),
      (''sex'', [StrV ''F'']), (''address'', [StrV ''U'']), (''famsize'', [StrV ''GT3'']),
      (''Pstatus'', [StrV ''T'']), (''Medu'', [IntV 2]), (''Fedu'', [IntV 2]),
      (''Mjob'', [StrV ''teacher'']), (''Fjob'', [StrV ''other'']), (''reason'', [StrV ''home'']),
      (''guardian'', [StrV ''mother'']), (''studytime'', [IntV 4]),
      (''schoolsup'', [StrV ''no'']), (''famsup'', [StrV ''yes'']), (''paid'', [StrV ''no'']),
      (''activities'', [StrV ''yes'']), (''nursery'', [StrV ''yes'']), (''higher'', [StrV ''yes'']),
      (''internet'', [StrV ''yes'']), (''romantic'', [StrV ''no'']),
      (''goout'', [IntV 2]), (''Dalc'', [IntV 1]), (''Walc'', [IntV 1]), (''absences'', [IntV 0]),
      (''FinalGrade'', [IntV g])]\<rparr>"

text \<open>
  A list of training columns, and the tables that the stages of the pipeline give for
  the example student: after the mapping step, after the whole encoding without
  training columns, after reconciliation with the training columns, the passthrough
  columns, and the dashboard row for the prediction \<open>p\<close>.
\<close>

definition example_features :: "string list" where
  "example_features = [''sex'', ''studytime'', ''higher'', ''goout'', ''Dalc'', ''Walc'', ''absences'',
     ''Mjob_teacher'', ''Total_Alcohol'', ''Party_Life'']"

definition student_mapped :: "int \<Rightarrow> dataframe" where
  "student_mapped g = \<lparr>nrows = 1, cols =
     [(''sex'', [IntV 1]), (''address'', [IntV 1]), (''famsize'', [IntV 0]),
      (''Pstatus'', [IntV 1]), (''Medu'', [IntV 2]), (''Fedu'', [IntV 2]),
      (''Mjob'', [StrV ''teacher'']), (''Fjob'', [StrV ''other'']), (''reason'', [StrV ''home'']),
      (''guardian'', [StrV ''mother'']), (''studytime'', [IntV 4]),
      (''schoolsup'', [IntV 0]), (''famsup'', [IntV 1]), (''paid'', [IntV 0]),
      (''activities'', [IntV 1]), (''nursery'', [IntV 1]), (''higher'', [IntV 1]),
      (''internet'', [IntV 1]), (''romantic'', [IntV 0]),
      (''goout'', [IntV 2]), (''Dalc'', [IntV 1]), (''Walc'', [IntV 1]), (''absences'', [IntV 0]),
      (''FinalGrade'', [IntV g])]\<rparr>"

definition student_engineered :: "int \<Rightarrow> dataframe" where
  "student_engineered g = \<lparr>nrows = 1, cols =
     [(''sex'', [IntV 1]), (''address'', [IntV 1]), (''famsize'', [IntV 0]),
      (''Pstatus'', [IntV 1]), (''Medu'', [IntV 2]), (''Fedu'', [IntV 2]),
      (''studytime'', [IntV 4]),
      (''schoolsup'', [IntV 0]), (''famsup'', [IntV 1]), (''paid'', [IntV 0]),
      (''activities'', [IntV 1]), (''nursery'', [IntV 1]), (''higher'', [IntV 1]),
      (''internet'', [IntV 1]), (''romantic'', [IntV 0]),
      (''goout'', [IntV 2]), (''Dalc'', [IntV 1]), (''Walc'', [IntV 1]), (''absences'', [IntV 0]),
      (''FinalGrade'', [IntV g]),
      (''Parent_Edu_Total'', [IntV 4]), (''Parent_Edu_Diff'', [IntV 0]),
      (''Total_Alcohol'', [IntV 3]), (''Party_Life'', [IntV 18])]\<rparr>"

definition student_encoded :: dataframe where
  "student_encoded = \<lparr>nrows = 1, cols =
     [(''sex'', [IntV 1]), (''studytime'', [IntV 4]), (''higher'', [IntV 1]), (''goout'', [IntV 2]),
      (''Dalc'', [IntV 1]), (''Walc'', [IntV 1]), (''absences'', [IntV 0]),
      (''Mjob_teacher'', [IntV 0]), (''Total_Alcohol'', [IntV 3]), (''Party_Life'', [IntV 18])]\<rparr>"

definition student_passthrough :: "int \<Rightarrow> dataframe" where
  "student_passthrough g = \<lparr>nrows = 1, cols =
     [(''StudentID'', [IntV 1]), (''FirstName'', [StrV ''Ada'']), (''FamilyName'', [StrV ''Byron'']),
      (''FinalGrade'', [IntV g])]\<rparr>"

definition student_dashboard :: "int \<Rightarrow> rat \<Rightarrow> dataframe" where
  "student_dashboard g p = \<lparr>nrows = 1, cols =
     [(''StudentID'', [IntV 1]), (''FirstName'', [StrV ''Ada'']), (''FamilyName'', [StrV ''Byron'']),
      (''FinalGrade'', [IntV g]),
      (''Potential_Grade'', [FloatV (np_round2 p)]),
      (''Improvability_Margin'', [FloatV (max (np_round2 p - of_int g) 0)]),
      (''Complexity_Score'', [FloatV (1 - max (np_round2 p - of_int g) 0 / 20)])]\<rparr>"

text \<open>
  The example student with the value \<^verbatim>\<open>X\<close> for \<^verbatim>\<open>sex\<close>, which is no key of
  \<^verbatim>\<open>SEX_MAPPING\<close>: the table after the mapping step, and its encodings without and
  with training columns.
\<close>

definition student_unknown_sex :: dataframe where
  "student_unknown_sex = setitem (student 10) ''sex'' [StrV ''X'']"

definition unknown_sex_mapped :: dataframe where
  "unknown_sex_mapped = \<lparr>nrows = 1, cols =
     [(''sex'', [NaN]), (''address'', [IntV 1]), (''famsize'', [IntV 0]),
      (''Pstatus'', [IntV 1]), (''Medu'', [IntV 2]), (''Fedu'', [IntV 2]),
      (''Mjob'', [StrV ''teacher'']), (''Fjob'', [StrV ''other'']), (''reason'', [StrV ''home'']),
      (''guardian'', [StrV ''mother'']), (''studytime'', [IntV 1]),
      (''schoolsup'', [IntV 0]), (''famsup'', [IntV 1]), (''paid'', [IntV 0]),
      (''activities'', [IntV 1]), (''nursery'', [IntV 1]), (''higher'', [IntV 1]),
      (''internet'', [IntV 1]), (''romantic'', [IntV 0]),
      (''goout'', [IntV 5]), (''Dalc'', [IntV 3]), (''Walc'', [IntV 4]), (''absences'', [IntV 10]),
      (''FinalGrade'', [IntV 10])]\<rparr>"

definition unknown_sex_encoded :: dataframe where
  "unknown_sex_encoded = \<lparr>nrows = 1, cols =
     [(''sex'', [NaN]), (''address'', [IntV 1]), (''famsize'', [IntV 0]),
      (''Pstatus'', [IntV 1]), (''Medu'', [IntV 2]), (''Fedu'', [IntV 2]),
      (''studytime'', [IntV 1]),
      (''schoolsup'', [IntV 0]), (''famsup'', [IntV 1]), (''paid'', [IntV 0]),
      (''activities'', [IntV 1]), (''nursery'', [IntV 1]), (''higher'', [IntV 1]),
      (''internet'', [IntV 1]), (''romantic'', [IntV 0]),
      (''goout'', [IntV 5]), (''Dalc'', [IntV 3]), (''Walc'', [IntV 4]), (''absences'', [IntV 10]),
      (''FinalGrade'', [IntV 10]),
      (''Parent_Edu_Total'', [IntV 4]), (''Parent_Edu_Diff'', [IntV 0]),
      (''Total_Alcohol'', [IntV 11]), (''Party_Life'', [IntV 605])]\<rparr>"

definition unknown_sex_reconciled :: dataframe where
  "unknown_sex_reconciled = \<lparr>nrows = 1, cols =
     [(''sex'', [NaN]), (''studytime'', [IntV 1]), (''higher'', [IntV 1]), (''goout'', [IntV 5]),
      (''Dalc'', [IntV 3]), (''Walc'', [IntV 4]), (''absences'', [IntV 10]),
      (''Mjob_teacher'', [IntV 0]), (''Total_Alcohol'', [IntV 11]), (''Party_Life'', [IntV 605])]\<rparr>"

text \<open>
  Two students whose table has, next to \<^verbatim>\<open>Mjob\<close>, a column that is itself named
  \<^verbatim>\<open>Mjob_teacher\<close>, and the stages of its encoding.
\<close>

definition colliding_students :: dataframe where
  "colliding_students = \<lparr>nrows = 2, cols =
     [(''sex'', [StrV ''F'', StrV ''M'']), (''address'', [StrV ''U'', StrV ''U'']),
      (''famsize'', [StrV ''GT3'', StrV ''GT3'']), (''Pstatus'', [StrV ''T'', StrV ''T'']),
      (''Medu'', [IntV 2, IntV 2]), (''Fedu'', [IntV 2, IntV 2]),
      (''Mjob'', [StrV ''at_home'', StrV ''teacher'']), (''Fjob'', [StrV ''other'', StrV ''other'']),
      (''reason'', [StrV ''home'', StrV ''home'']), (''guardian'', [StrV ''mother'', StrV ''mother'']),
      (''schoolsup'', [StrV ''no'', StrV ''no'']), (''famsup'', [StrV ''yes'', StrV ''yes'']),
      (''paid'', [StrV ''no'', StrV ''no'']), (''activities'', [StrV ''yes'', StrV ''yes'']),
      (''nursery'', [StrV ''yes'', StrV ''yes'']), (''higher'', [StrV ''yes'', StrV ''yes'']),
      (''internet'', [StrV ''yes'', StrV ''yes'']), (''romantic'', [StrV ''no'', StrV ''no'']),
      (''goout'', [IntV 5, IntV 3]), (''Dalc'', [IntV 3, IntV 1]), (''Walc'', [IntV 4, IntV 1]),
      (''Mjob_teacher'', [IntV 7, IntV 9])]\<rparr>"

definition colliding_mapped :: dataframe where
  "colliding_mapped = \<lparr>nrows = 2, cols =
     [(''sex'', [IntV 1, IntV 0]), (''address'', [IntV 1, IntV 1]),
      (''famsize'', [IntV 0, IntV 0]), (''Pstatus'', [IntV 1, IntV 1]),
      (''Medu'', [IntV 2, IntV 2]), (''Fedu'', [IntV 2, IntV 2]),
      (''Mjob'', [StrV ''at_home'', StrV ''teacher'']), (''Fjob'', [StrV ''other'', StrV ''other'']),
      (''reason'', [StrV ''home'', StrV ''home'']), (''guardian'', [StrV ''mother'', StrV ''mother'']),
      (''schoolsup'', [IntV 0, IntV 0]), (''famsup'', [IntV 1, IntV 1]),
      (''paid'', [IntV 0, IntV 0]), (''activities'', [IntV 1, IntV 1]),
      (''nursery'', [IntV 1, IntV 1]), (''higher'', [IntV 1, IntV 1]),
      (''internet'', [IntV 1, IntV 1]), (''romantic'', [IntV 0, IntV 0]),
      (''goout'', [IntV 5, IntV 3]), (''Dalc'', [IntV 3, IntV 1]), (''Walc'', [IntV 4, IntV 1]),
      (''Mjob_teacher'', [IntV 7, IntV 9])]\<rparr>"

definition colliding_engineered :: dataframe where
  "colliding_engineered = \<lparr>nrows = 2, cols =
     [(''sex'', [IntV 1, IntV 0]), (''address'', [IntV 1, IntV 1]),
      (''famsize'', [IntV 0, IntV 0]), (''Pstatus'', [IntV 1, IntV 1]),
      (''Medu'', [IntV 2, IntV 2]), (''Fedu'', [IntV 2, IntV 2]),
      (''schoolsup'', [IntV 0, IntV 0]), (''famsup'', [IntV 1, IntV 1]),
      (''paid'', [IntV 0, IntV 0]), (''activities'', [IntV 1, IntV 1]),
      (''nursery'', [IntV 1, IntV 1]), (''higher'', [IntV 1, IntV 1]),
      (''internet'', [IntV 1, IntV 1]), (''romantic'', [IntV 0, IntV 0]),
      (''goout'', [IntV 5, IntV 3]), (''Dalc'', [IntV 3, IntV 1]), (''Walc'', [IntV 4, IntV 1]),
      (''Mjob_teacher'', [IntV 7, IntV 9]), (''Mjob_teacher'', [IntV 0, IntV 1]),
      (''Parent_Edu_Total'', [IntV 4, IntV 4]), (''Parent_Edu_Diff'', [IntV 0, IntV 0]),
      (''Total_Alcohol'', [IntV 11, IntV 3]), (''Party_Life'', [IntV 605, IntV 27])]\<rparr>"

definition colliding_encoded :: dataframe where
  "colliding_encoded = \<lparr>nrows = 2, cols =
     [(''Medu'', [IntV 2, IntV 2]), (''Mjob_teacher'', [IntV 7, IntV 9]),
      (''Mjob_teacher'', [IntV 0, IntV 1])]\<rparr>"

text \<open>
  A table of three students. The second has no recorded \<^verbatim>\<open>FinalGrade\<close>: an
  empty field of the CSV file, which \<^verbatim>\<open>read_csv\<close> loads as NaN in a float
  column. The tables after it are the stages of the dashboard pipeline on these three rows.
\<close>

definition three_students :: dataframe where
  "three_students = \<lparr>nrows = 3, cols =
     [(''StudentID'', [IntV 1, IntV 2, IntV 3]),
      (''FirstName'', [StrV ''Ada'', StrV ''Bob'', StrV ''Cleo'']),
      (''FamilyName'', [StrV ''Byron'', StrV ''Carter'', StrV ''Diaz'']),
      (''sex'', [StrV ''F'', StrV ''M'', StrV ''F'']),
      (''address'', [StrV ''U'', StrV ''U'', StrV ''U'']),
      (''famsize'', [StrV ''GT3'', StrV ''GT3'', StrV ''GT3'']),
      (''Pstatus'', [StrV ''T'', StrV ''T'', StrV ''T'']),
      (''Medu'', [IntV 2, IntV 4, IntV 3]), (''Fedu'', [IntV 2, IntV 1, IntV 3]),
      (''Mjob'', [StrV ''teacher'', StrV ''at_home'', StrV ''teacher'']),
      (''Fjob'', [StrV ''other'', StrV ''other'', StrV ''other'']),
      (''reason'', [StrV ''home'', StrV ''home'', StrV ''home'']),
      (''guardian'', [StrV ''mother'', StrV ''mother'', StrV ''mother'']),
      (''studytime'', [IntV 1, IntV 2, IntV 3]),
      (''schoolsup'', [StrV ''no'', StrV ''no'', StrV ''no'']),
      (''famsup'', [StrV ''yes'', StrV ''yes'', StrV ''yes'']),
      (''paid'', [StrV ''no'', StrV ''no'', StrV ''no'']),
      (''activities'', [StrV ''yes'', StrV ''yes'', StrV ''yes'']),
      (''nursery'', [StrV ''yes'', StrV ''yes'', StrV ''yes'']),
      (''higher'', [StrV ''yes'', StrV ''yes'', StrV ''yes'']),
      (''internet'', [StrV ''yes'', StrV ''yes'', StrV ''yes'']),
      (''romantic'', [StrV ''no'', StrV ''no'', StrV ''no'']),
      (''goout'', [IntV 5, IntV 3, IntV 2]), (''Dalc'', [IntV 3, IntV 1, IntV 1]),
      (''Walc'', [IntV 4, IntV 2, IntV 1]), (''absences'', [IntV 10, IntV 4, IntV 0]),
      (''FinalGrade'', [FloatV 10, NaN, FloatV 18])]\<rparr>"

definition three_ideal :: dataframe where
  "three_ideal = \<lparr>nrows = 3, cols =
     [(''StudentID'', [IntV 1, IntV 2, IntV 3]),
      (''FirstName'', [StrV ''Ada'', StrV ''Bob'', StrV ''Cleo'']),
      (''FamilyName'', [StrV ''Byron'', StrV ''Carter'', StrV ''Diaz'']),
      (''sex'', [StrV ''F'', StrV ''M'', StrV ''F'']),
      (''address'', [StrV ''U'', StrV ''U'', StrV ''U'']),
      (''famsize'', [StrV ''GT3'', StrV ''GT3'', StrV ''GT3'']),
      (''Pstatus'', [StrV ''T'', StrV ''T'', StrV ''T'']),
      (''Medu'', [IntV 2, IntV 4, IntV 3]), (''Fedu'', [IntV 2, IntV 1, IntV 3]),
      (''Mjob'', [StrV ''teacher'', StrV ''at_home'', StrV ''teacher'']),
      (''Fjob'', [StrV ''other'', StrV ''other'', StrV ''other'']),
      (''reason'', [StrV ''home'', StrV ''home'', StrV ''home'']),
      (''guardian'', [StrV ''mother'', StrV ''mother'', StrV ''mother'']),
      (''studytime'', [IntV 4, IntV 4, IntV 4]),
      (''schoolsup'', [StrV ''no'', StrV ''no'', StrV ''no'']),
      (''famsup'', [StrV ''yes'', StrV ''yes'', StrV ''yes'']),
      (''paid'', [StrV ''no'', StrV ''no'', StrV ''no'']),
      (''activities'', [StrV ''yes'', StrV ''yes'', StrV ''yes'']),
      (''nursery'', [StrV ''yes'', StrV ''yes'', StrV ''yes'']),
      (''higher'', [StrV ''yes'', StrV ''yes'', StrV ''yes'']),
      (''internet'', [StrV ''yes'', StrV ''yes'', StrV ''yes'']),
      (''romantic'', [StrV ''no'', StrV ''no'', StrV ''no'']),
      (''goout'', [IntV 2, IntV 2, IntV 2]), (''Dalc'', [IntV 1, IntV 1, IntV 1]),
      (''Walc'', [IntV 1, IntV 1, IntV 1]), (''absences'', [IntV 0, IntV 0, IntV 0]),
      (''FinalGrade'', [FloatV 10, NaN, FloatV 18])]\<rparr>"

definition three_mapped :: dataframe where
  "three_mapped = \<lparr>nrows = 3, cols =
     [(''sex'', [IntV 1, IntV 0, IntV 1]),
      (''address'', [IntV 1, IntV 1, IntV 1]),
      (''famsize'', [IntV 0, IntV 0, IntV 0]),
      (''Pstatus'', [IntV 1, IntV 1, IntV 1]),
      (''Medu'', [IntV 2, IntV 4, IntV 3]), (''Fedu'', [IntV 2, IntV 1, IntV 3]),
      (''Mjob'', [StrV ''teacher'', StrV ''at_home'', StrV ''teacher'']),
      (''Fjob'', [StrV ''other'', StrV ''other'', StrV ''other'']),
      (''reason'', [StrV ''home'', StrV ''home'', StrV ''home'']),
      (''guardian'', [StrV ''mother'', StrV ''mother'', StrV ''mother'']),
      (''studytime'', [IntV 4, IntV 4, IntV 4]),
      (''schoolsup'', [IntV 0, IntV 0, IntV 0]),
      (''famsup'', [IntV 1, IntV 1, IntV 1]),
      (''paid'', [IntV 0, IntV 0, IntV 0]),
      (''activities'', [IntV 1, IntV 1, IntV 1]),
      (''nursery'', [IntV 1, IntV 1, IntV 1]),
      (''higher'', [IntV 1, IntV 1, IntV 1]),
      (''internet'', [IntV 1, IntV 1, IntV 1]),
      (''romantic'', [IntV 0, IntV 0, IntV 0]),
      (''goout'', [IntV 2, IntV 2, IntV 2]), (''Dalc'', [IntV 1, IntV 1, IntV 1]),
      (''Walc'', [IntV 1, IntV 1, IntV 1]), (''absences'', [IntV 0, IntV 0, IntV 0]),
      (''FinalGrade'', [FloatV 10, NaN, FloatV 18])]\<rparr>"

definition three_engineered :: dataframe where
  "three_engineered = \<lparr>nrows = 3, cols =
     [(''sex'', [IntV 1, IntV 0, IntV 1]),
      (''address'', [IntV 1, IntV 1, IntV 1]),
      (''famsize'', [IntV 0, IntV 0, IntV 0]),
      (''Pstatus'', [IntV 1, IntV 1, IntV 1]),
      (''Medu'', [IntV 2, IntV 4, IntV 3]), (''Fedu'', [IntV 2, IntV 1, IntV 3]),
      (''studytime'', [IntV 4, IntV 4, IntV 4]),
      (''schoolsup'', [IntV 0, IntV 0, IntV 0]),
      (''famsup'', [IntV 1, IntV 1, IntV 1]),
      (''paid'', [IntV 0, IntV 0, IntV 0]),
      (''activities'', [IntV 1, IntV 1, IntV 1]),
      (''nursery'', [IntV 1, IntV 1, IntV 1]),
      (''higher'', [IntV 1, IntV 1, IntV 1]),
      (''internet'', [IntV 1, IntV 1, IntV 1]),
      (''romantic'', [IntV 0, IntV 0, IntV 0]),
      (''goout'', [IntV 2, IntV 2, IntV 2]), (''Dalc'', [IntV 1, IntV 1, IntV 1]),
      (''Walc'', [IntV 1, IntV 1, IntV 1]), (''absences'', [IntV 0, IntV 0, IntV 0]),
      (''FinalGrade'', [FloatV 10, NaN, FloatV 18]),
      (''Mjob_teacher'', [IntV 1, IntV 0, IntV 1]),
      (''Parent_Edu_Total'', [IntV 4, IntV 5, IntV 6]),
      (''Parent_Edu_Diff'', [IntV 0, IntV 3, IntV 0]),
      (''Total_Alcohol'', [IntV 3, IntV 3, IntV 3]),
      (''Party_Life'', [IntV 18, IntV 18, IntV 18])]\<rparr>"

definition three_encoded :: dataframe where
  "three_encoded = \<lparr>nrows = 3, cols =
     [(''sex'', [IntV 1, IntV 0, IntV 1]), (''studytime'', [IntV 4, IntV 4, IntV 4]),
      (''higher'', [IntV 1, IntV 1, IntV 1]), (''goout'', [IntV 2, IntV 2, IntV 2]),
      (''Dalc'', [IntV 1, IntV 1, IntV 1]), (''Walc'', [IntV 1, IntV 1, IntV 1]),
      (''absences'', [IntV 0, IntV 0, IntV 0]), (''Mjob_teacher'', [IntV 1, IntV 0, IntV 1]),
      (''Total_Alcohol'', [IntV 3, IntV 3, IntV 3]),
      (''Party_Life'', [IntV 18, IntV 18, IntV 18])]\<rparr>"

definition three_passthrough :: dataframe where
  "three_passthrough = \<lparr>nrows = 3, cols =
     [(''StudentID'', [IntV 1, IntV 2, IntV 3]),
      (''FirstName'', [StrV ''Ada'', StrV ''Bob'', StrV ''Cleo'']),
      (''FamilyName'', [StrV ''Byron'', StrV ''Carter'', StrV ''Diaz'']),
      (''FinalGrade'', [FloatV 10, NaN, FloatV 18])]\<rparr>"

definition three_dashboard :: "rat \<Rightarrow> rat \<Rightarrow> rat \<Rightarrow> dataframe" where
  "three_dashboard p1 p2 p3 = \<lparr>nrows = 3, cols =
     [(''StudentID'', [IntV 1, IntV 2, IntV 3]),
      (''FirstName'', [StrV ''Ada'', StrV ''Bob'', StrV ''Cleo'']),
      (''FamilyName'', [StrV ''Byron'', StrV ''Carter'', StrV ''Diaz'']),
      (''FinalGrade'', [FloatV 10, NaN, FloatV 18]),
      (''Potential_Grade'', [FloatV (np_round2 p1), FloatV (np_round2 p2), FloatV (np_round2 p3)]),
      (''Improvability_Margin'',
         [FloatV (max (np_round2 p1 - 10) 0), NaN, FloatV (max (np_round2 p3 - 18) 0)]),
      (''Complexity_Score'',
         [FloatV (1 - max (np_round2 p1 - 10) 0 / 20), NaN,
          FloatV (1 - max (np_round2 p3 - 18) 0 / 20)])]\<rparr>"

section \<open>Tables: reading, assigning and selecting columns\<close>

lemma map_of_setitem_cols:
  "map_of (map (\<lambda>(n, ys). if n = c then (n, xs) else (n, ys)) cs) k =
     (if k = c then (if map_of cs c = None then None else Some xs) else map_of cs k)"
  by (induction cs) (auto split: prod.splits)

lemma map_of_append_new:
  "map_of (cs @ [(c, xs)]) k = (case map_of cs k of Some ys \<Rightarrow> Some ys | None \<Rightarrow> if k = c then Some xs else None)"
  by (induction cs) auto

lemma getitem_setitem:
  "getitem (setitem df c xs) k = (if k = c then Inr xs else getitem df k)"
proof (cases "c \<in> fst ` set (cols df)")
  case True
  then have "map_of (cols df) c \<noteq> None"
    by (simp add: map_of_eq_None_iff)
  with True show ?thesis
    by (auto simp: getitem_def setitem_def colnames_def map_of_setitem_cols)
next
  case False
  then have "map_of (cols df) c = None"
    by (simp add: map_of_eq_None_iff)
  with False show ?thesis
    by (auto simp: getitem_def setitem_def colnames_def map_of_append_new split: option.splits)
qed

lemma colnames_setitem:
  "colnames (setitem df c xs) = (if c \<in> set (colnames df) then colnames df else colnames df @ [c])"
  by (auto simp: setitem_def colnames_def intro!: map_idI split: prod.splits)

lemma nrows_setitem [simp]: "nrows (setitem df c xs) = nrows df"
  by (simp add: setitem_def)

lemma getitem_setitem_scalar:
  "getitem (setitem_scalar df c v) k = (if k = c then Inr (replicate (nrows df) v) else getitem df k)"
  by (simp add: setitem_scalar_def getitem_setitem)

lemma nrows_setitem_scalar [simp]: "nrows (setitem_scalar df c v) = nrows df"
  by (simp add: setitem_scalar_def)

lemma create_ideal_profile_eq:
  "r < length h \<Longrightarrow> create_ideal_profile h r = (length h, h @ [ideal_table (h ! r)])"
  by (simp add: create_ideal_profile_def df_copy_def alloc_def assign_scalar_def ideal_table_def
        nth_append list_update_append)

lemma getitem_ideal_table:
  "getitem (ideal_table df) k =
     (if k = ''studytime'' then Inr (replicate (nrows df) (IntV 4))
      else if k = ''Dalc'' then Inr (replicate (nrows df) (IntV 1))
      else if k = ''Walc'' then Inr (replicate (nrows df) (IntV 1))
      else if k = ''absences'' then Inr (replicate (nrows df) (IntV 0))
      else if k = ''goout'' then Inr (replicate (nrows df) (IntV 2))
      else getitem df k)"
  by (simp add: ideal_table_def getitem_setitem_scalar)

lemma getitem_KeyError_iff: "getitem df k = Inl e \<longleftrightarrow> e = KeyError \<and> k \<notin> set (colnames df)"
  by (auto simp: getitem_def colnames_def simp flip: map_of_eq_None_iff split: option.splits)

lemma getitem_Inr_mem:
  assumes "getitem df k = Inr xs"
  shows "k \<in> set (colnames df)"
proof (rule ccontr)
  assume "k \<notin> set (colnames df)"
  then have "map_of (cols df) k = None"
    by (simp add: colnames_def map_of_eq_None_iff)
  with assms show False by (simp add: getitem_def)
qed

lemma map_of_filter_label:
  "map_of (filter (\<lambda>c. fst c = l) cs) k = (if k = l then map_of cs k else None)"
  by (induction cs) auto

lemma map_of_select:
  "map_of (concat (map (\<lambda>l. filter (\<lambda>c. fst c = l) cs) labels)) k =
     (if k \<in> set labels then map_of cs k else None)"
  by (induction labels) (auto simp: map_of_filter_label map_add_def split: option.splits)

lemma getitem_select:
  assumes "select_columns df labels = Inr t"
  shows "getitem t k = (if k \<in> set labels then getitem df k else Inl KeyError)"
  using assms
  by (auto simp: select_columns_def getitem_def map_of_select split: if_splits)

lemma nrows_select: "select_columns df labels = Inr t \<Longrightarrow> nrows t = nrows df"
  by (auto simp: select_columns_def split: if_splits)

lemma filter_label_distinct:
  "distinct (map fst cs) \<Longrightarrow> l \<in> fst ` set cs \<Longrightarrow> map fst (filter (\<lambda>c. fst c = l) cs) = [l]"
  by (induction cs) (auto simp: image_iff filter_empty_conv)

lemma colnames_select_distinct:
  assumes "select_columns df labels = Inr t" and "distinct (colnames df)"
  shows "colnames t = labels"
proof -
  from assms(1) have sub: "set labels \<subseteq> set (colnames df)"
    and t: "cols t = concat (map (\<lambda>l. filter (\<lambda>c. fst c = l) (cols df)) labels)"
    by (auto simp: select_columns_def list_all_iff split: if_splits)
  have "map fst (concat (map (\<lambda>l. filter (\<lambda>c. fst c = l) (cols df)) ls)) = ls"
    if "set ls \<subseteq> set (colnames df)" for ls
    using that assms(2)
    by (induction ls) (auto simp: colnames_def filter_label_distinct)
  with sub t show ?thesis by (simp add: colnames_def)
qed

lemma nrows_fill_missing [simp]: "nrows (fill_missing df S) = nrows df"
  by (induction S arbitrary: df) auto

lemma colnames_fill_missing_mono: "set (colnames df) \<subseteq> set (colnames (fill_missing df S))"
proof (induction S arbitrary: df)
  case Nil then show ?case by simp
next
  case (Cons c S)
  have "set (colnames df) \<subseteq> set (colnames (if c \<notin> set (colnames df) then setitem_scalar df c (IntV 0) else df))"
    by (auto simp: setitem_scalar_def colnames_setitem)
  with Cons show ?case by (metis fill_missing.simps(2) subset_trans)
qed

lemma colnames_fill_missing_covers: "set S \<subseteq> set (colnames (fill_missing df S))"
proof (induction S arbitrary: df)
  case Nil then show ?case by simp
next
  case (Cons c S)
  let ?d = "if c \<notin> set (colnames df) then setitem_scalar df c (IntV 0) else df"
  have "c \<in> set (colnames ?d)"
    by (auto simp: setitem_scalar_def colnames_setitem)
  with colnames_fill_missing_mono[of ?d S] have "c \<in> set (colnames (fill_missing ?d S))" by blast
  with Cons.IH[of ?d] show ?case by simp
qed

lemma distinct_fill_missing:
  "distinct (colnames df) \<Longrightarrow> distinct (colnames (fill_missing df S))"
  by (induction S arbitrary: df) (auto simp: setitem_scalar_def colnames_setitem)

lemma getitem_fill_missing:
  "getitem (fill_missing df S) k =
     (if k \<in> set (colnames df) then getitem df k
      else if k \<in> set S then Inr (replicate (nrows df) (IntV 0))
      else Inl KeyError)"
proof (induction S arbitrary: df)
  case Nil
  then show ?case
    by (cases "getitem df k") (auto simp: getitem_KeyError_iff dest: getitem_Inr_mem)
next
  case (Cons c S)
  show ?case
    by (auto simp: Cons.IH setitem_scalar_def colnames_setitem getitem_setitem)
qed

lemma reconcile_succeeds: "\<exists>t. reconcile df S = Inr t"
  using colnames_fill_missing_covers[of S df]
  by (auto simp: reconcile_def select_columns_def list_all_iff)

lemma nrows_reconcile: "reconcile df S = Inr t \<Longrightarrow> nrows t = nrows df"
  by (simp add: reconcile_def nrows_select)

lemma getitem_reconcile:
  "reconcile df S = Inr t \<Longrightarrow>
   getitem t k =
       (if k \<in> set S then (if k \<in> set (colnames df) then getitem df k
                            else Inr (replicate (nrows df) (IntV 0)))
        else Inl KeyError)"
  by (simp add: reconcile_def getitem_select getitem_fill_missing)

lemma colnames_reconcile:
  "reconcile df S = Inr t \<Longrightarrow> distinct (colnames df) \<Longrightarrow> colnames t = S"
  using colnames_select_distinct[of "fill_missing df S" S t] distinct_fill_missing[of df S]
  by (simp add: reconcile_def)

lemma set_concat_filter_labels:
  "fst ` set (concat (map (\<lambda>l. filter (\<lambda>c. fst c = l) cs) labels)) = set labels \<inter> fst ` set cs"
  by (induction labels) (auto simp: image_iff)

lemma set_colnames_select:
  assumes "select_columns df labels = Inr t"
  shows "set (colnames t) = set labels"
proof -
  from assms have sub: "set labels \<subseteq> fst ` set (cols df)"
    and t: "cols t = concat (map (\<lambda>l. filter (\<lambda>c. fst c = l) (cols df)) labels)"
    by (auto simp: select_columns_def colnames_def list_all_iff split: if_splits)
  have "set (colnames t) = fst ` set (cols t)"
    by (simp add: colnames_def)
  also have "\<dots> = set labels \<inter> fst ` set (cols df)"
    unfolding t by (rule set_concat_filter_labels)
  also from sub have "\<dots> = set labels" by blast
  finally show ?thesis .
qed

lemma set_colnames_reconcile: "reconcile df S = Inr t \<Longrightarrow> set (colnames t) = set S"
  by (simp add: reconcile_def set_colnames_select)

subsection \<open>The stages of \<^verbatim>\<open>preprocess_data\<close>\<close>

lemma colnames_drop_columns: "colnames (drop_columns df ls) = filter (\<lambda>n. n \<notin> set ls) (colnames df)"
  by (simp add: drop_columns_def colnames_def filter_map comp_def)

lemma map_of_filter_not:
  "map_of (filter (\<lambda>c. fst c \<notin> L) cs) k = (if k \<in> L then None else map_of cs k)"
  by (induction cs) auto

lemma getitem_drop_columns:
  "getitem (drop_columns df ls) k = (if k \<in> set ls then Inl KeyError else getitem df k)"
  by (simp add: getitem_def drop_columns_def map_of_filter_not)

lemma getitem_cases:
  obtains (missing) "k \<notin> set (colnames df)" and "getitem df k = Inl KeyError"
  | (present) xs where "k \<in> set (colnames df)" and "getitem df k = Inr xs"
proof (cases "getitem df k")
  case (Inl e)
  then have "e = KeyError" "k \<notin> set (colnames df)"
    using getitem_KeyError_iff[of df k e] by simp_all
  with Inl missing show ?thesis by simp
next
  case (Inr xs)
  with present getitem_Inr_mem[OF Inr] show ?thesis by simp
qed

lemma map_column_Inl: "map_column df c d = Inl e \<longleftrightarrow> e = KeyError \<and> c \<notin> set (colnames df)"
  by (cases rule: getitem_cases[of c df]) (auto simp: map_column_def and_then_def)

lemma map_column_Inr:
  assumes "map_column df c d = Inr df'"
  shows "colnames df' = colnames df" and "nrows df' = nrows df"
    and "c \<in> set (colnames df)"
    and "getitem df' k = (if k = c then map_sum id (series_map d) (getitem df c) else getitem df k)"
proof -
  from assms obtain xs where xs: "getitem df c = Inr xs" and df': "df' = setitem df c (series_map d xs)"
    by (cases "getitem df c") (auto simp: map_column_def and_then_def)
  from xs show c: "c \<in> set (colnames df)" by (rule getitem_Inr_mem)
  from c df' show "colnames df' = colnames df" by (simp add: colnames_setitem)
  from df' show "nrows df' = nrows df" by simp
  from df' xs show "getitem df' k = (if k = c then map_sum id (series_map d) (getitem df c) else getitem df k)"
    by (simp add: getitem_setitem)
qed

lemma ideal_table_student: "ideal_table (student g) = student_ideal g"
  by (simp add: ideal_table_def setitem_scalar_def setitem_def colnames_def student_def
        student_ideal_def)

section \<open>The counterfactual profile\<close>

text \<open>
  Claim C5. \<^verbatim>\<open>create_ideal_profile\<close> returns a new table, different from its
  argument, and leaves every table that was allocated before the call as it was; in
  particular the argument is not mutated. In the new table \<^verbatim>\<open>studytime\<close> is 4,
  \<^verbatim>\<open>Dalc\<close> and \<^verbatim>\<open>Walc\<close> are 1, \<^verbatim>\<open>absences\<close> is 0 and \<^verbatim>\<open>goout\<close> is 2 in
  every row, whatever the argument held there, and every other column (the
  identifier, the names and \<^verbatim>\<open>FinalGrade\<close> among them) reads as in the argument.
\<close>

theorem create_ideal_profile_overrides:
  assumes "df_raw < length h"
    and "create_ideal_profile h df_raw = (df_ideal, h')"
    and "k \<notin> set overridden_cols"
  shows "df_ideal \<noteq> df_raw \<and> take (length h) h' = h \<and> h' ! df_raw = h ! df_raw
       \<and> nrows (h' ! df_ideal) = nrows (h ! df_raw)
       \<and> getitem (h' ! df_ideal) ''studytime'' = Inr (replicate (nrows (h ! df_raw)) (IntV 4))
       \<and> getitem (h' ! df_ideal) ''Dalc'' = Inr (replicate (nrows (h ! df_raw)) (IntV 1))
       \<and> getitem (h' ! df_ideal) ''Walc'' = Inr (replicate (nrows (h ! df_raw)) (IntV 1))
       \<and> getitem (h' ! df_ideal) ''absences'' = Inr (replicate (nrows (h ! df_raw)) (IntV 0))
       \<and> getitem (h' ! df_ideal) ''goout'' = Inr (replicate (nrows (h ! df_raw)) (IntV 2))
       \<and> getitem (h' ! df_ideal) k = getitem (h ! df_raw) k"
proof -
  from assms(1,2) have r: "df_ideal = length h" and h': "h' = h @ [ideal_table (h ! df_raw)]"
    by (simp_all add: create_ideal_profile_eq)
  from assms(3) have k: "k \<noteq> ''studytime''" "k \<noteq> ''Dalc''" "k \<noteq> ''Walc''" "k \<noteq> ''absences''"
    "k \<noteq> ''goout''"
    by (auto simp: overridden_cols_def)
  have "getitem (ideal_table (h ! df_raw)) k = getitem (h ! df_raw) k"
    using k by (simp add: getitem_ideal_table)
  moreover have "nrows (ideal_table (h ! df_raw)) = nrows (h ! df_raw)"
    by (simp add: ideal_table_def)
  ultimately show ?thesis
    using assms(1) by (simp add: r h' nth_append getitem_ideal_table)
qed

theorem create_ideal_profile_overrides_witness:
  "create_ideal_profile [student 10] 0 = (1, [student 10, student_ideal 10])
   \<and> getitem (student_ideal 10) ''studytime'' = Inr [IntV 4]
   \<and> getitem (student_ideal 10) ''absences'' = Inr [IntV 0]
   \<and> getitem (student_ideal 10) ''FinalGrade'' = getitem (student 10) ''FinalGrade''
   \<and> getitem (student 10) ''studytime'' = Inr [IntV 1]"
proof -
  have c: "create_ideal_profile [student 10] 0 = (1, [student 10, student_ideal 10])"
    by (simp add: create_ideal_profile_eq ideal_table_student)
  have n: "nrows (student 10) = 1"
    by (simp add: student_def)
  have s: "getitem (student 10) ''studytime'' = Inr [IntV 1]"
    by (simp add: student_def getitem_def)
  have k: "''FinalGrade'' \<notin> set overridden_cols"
    by (simp add: overridden_cols_def)
  from create_ideal_profile_overrides[of 0 "[student 10]" 1 "[student 10, student_ideal 10]",
      OF _ c k] n s c
  show ?thesis by simp
qed

section \<open>Threading of exceptions and columns\<close>

lemma and_then_Inr: "and_then r f = Inr y \<longleftrightarrow> (\<exists>x. r = Inr x \<and> f x = Inr y)"
  by (cases r) (auto simp: and_then_def)

lemma series_apply_Inr:
  "series_apply f xs = Inr ys \<Longrightarrow> length ys = length xs"
  by (induction xs arbitrary: ys) (auto split: sum.splits)

lemma series_apply_nth:
  "series_apply f xs = Inr ys \<Longrightarrow> i < length xs \<Longrightarrow> f (xs ! i) = Inr (ys ! i)"
proof (induction xs arbitrary: ys i)
  case Nil then show ?case by simp
next
  case (Cons x xs)
  then show ?case by (cases i) (auto split: sum.splits)
qed

lemma series_binop_length:
  "series_binop f xs ys = Inr zs \<Longrightarrow> length zs = min (length xs) (length ys)"
  by (induction f xs ys arbitrary: zs rule: series_binop.induct) (auto split: sum.splits)

lemma series_binop_nth:
  "series_binop f xs ys = Inr zs \<Longrightarrow> i < length zs \<Longrightarrow> f (xs ! i) (ys ! i) = Inr (zs ! i)"
proof (induction f xs ys arbitrary: zs i rule: series_binop.induct)
  case (1 f x xs y ys)
  then show ?case by (cases i) (auto split: sum.splits)
qed auto

section \<open>The dashboard pipeline, step by step\<close>

lemma generate_dashboard_data_unfold:
  "generate_dashboard_data model feature_cols loaded =
      and_then (preprocess_data (ideal_table loaded) (Some feature_cols)) (\<lambda>X_ideal.
      and_then (model X_ideal) (\<lambda>potential_preds.
      and_then (select_columns loaded passthrough_cols) (\<lambda>results.
      and_then (setitem_array results ''Potential_Grade''
                  (map (\<lambda>p. FloatV (np_round2 p)) potential_preds)) (\<lambda>results.
      and_then (getitem results ''Potential_Grade'') (\<lambda>pg.
      and_then (getitem results ''FinalGrade'') (\<lambda>fg.
      and_then (series_binop py_sub pg fg) (\<lambda>margin.
      let results = setitem results ''Improvability_Margin'' margin in
      and_then (getitem results ''Improvability_Margin'') (\<lambda>margin.
      and_then (series_apply clip_lower0 margin) (\<lambda>clipped.
      let results = setitem results ''Improvability_Margin'' clipped in
      and_then (getitem results ''Improvability_Margin'') (\<lambda>margin.
      and_then (series_apply (\<lambda>c. py_truediv c 20) margin) (\<lambda>q.
      and_then (series_apply (py_sub (IntV 1)) q) (\<lambda>score.
      Inr (setitem results ''Complexity_Score'' score)))))))))))))"
  by (simp add: generate_dashboard_data_def alloc_def create_ideal_profile_eq)

lemma setitem_twice: "setitem (setitem df c xs) c ys = setitem df c ys"
proof (cases "c \<in> set (colnames df)")
  case True
  then show ?thesis
    by (auto simp: setitem_def colnames_def image_iff split: prod.splits)
next
  case False
  then have "map (\<lambda>(n, zs). if n = c then (n, ys) else (n, zs)) (cols df) = cols df"
    by (intro map_idI) (force simp: colnames_def split: prod.splits)
  with False show ?thesis
    by (simp add: setitem_def colnames_def)
qed

lemma and_thenE:
  assumes "and_then r f = Inr y"
  obtains x where "r = Inr x" and "f x = Inr y"
  using assms by (auto simp: and_then_Inr)

lemma generate_dashboard_data_chain:
  assumes "generate_dashboard_data model feature_cols loaded = Inr res"
  shows "\<exists>X preds results r1 pg fg margin m1 clipped m2 q score.
    preprocess_data (ideal_table loaded) (Some feature_cols) = Inr X
    \<and> model X = Inr preds
    \<and> select_columns loaded passthrough_cols = Inr results
    \<and> setitem_array results ''Potential_Grade'' (map (\<lambda>p. FloatV (np_round2 p)) preds) = Inr r1
    \<and> getitem r1 ''Potential_Grade'' = Inr pg
    \<and> getitem r1 ''FinalGrade'' = Inr fg
    \<and> series_binop py_sub pg fg = Inr margin
    \<and> getitem (setitem r1 ''Improvability_Margin'' margin) ''Improvability_Margin'' = Inr m1
    \<and> series_apply clip_lower0 m1 = Inr clipped
    \<and> getitem (setitem (setitem r1 ''Improvability_Margin'' margin) ''Improvability_Margin'' clipped)
               ''Improvability_Margin'' = Inr m2
    \<and> series_apply (\<lambda>c. py_truediv c 20) m2 = Inr q
    \<and> series_apply (py_sub (IntV 1)) q = Inr score
    \<and> setitem (setitem (setitem r1 ''Improvability_Margin'' margin) ''Improvability_Margin'' clipped)
               ''Complexity_Score'' score = res"
  using assms[unfolded generate_dashboard_data_unfold]
  apply (simp only: and_then_Inr Let_def sum.inject)
  apply (elim exE conjE)
  apply (intro exI conjI; assumption)
  done

lemma generate_dashboard_data_Inr:
  assumes "generate_dashboard_data model feature_cols loaded = Inr res"
  obtains X preds results fg margin clipped q score where
    "preprocess_data (ideal_table loaded) (Some feature_cols) = Inr X"
    and "model X = Inr preds"
    and "length preds = nrows loaded"
    and "select_columns loaded passthrough_cols = Inr results"
    and "getitem loaded ''FinalGrade'' = Inr fg"
    and "series_binop py_sub (map (\<lambda>p. FloatV (np_round2 p)) preds) fg = Inr margin"
    and "series_apply clip_lower0 margin = Inr clipped"
    and "series_apply (\<lambda>c. py_truediv c 20) clipped = Inr q"
    and "series_apply (py_sub (IntV 1)) q = Inr score"
    and "res = setitem (setitem (setitem results ''Potential_Grade''
            (map (\<lambda>p. FloatV (np_round2 p)) preds)) ''Improvability_Margin'' clipped)
            ''Complexity_Score'' score"
proof -
  from generate_dashboard_data_chain[OF assms]
  obtain X preds results r1 pg fg margin m1 clipped m2 q score where
    X: "preprocess_data (ideal_table loaded) (Some feature_cols) = Inr X"
    and p: "model X = Inr preds"
    and s: "select_columns loaded passthrough_cols = Inr results"
    and a: "setitem_array results ''Potential_Grade'' (map (\<lambda>p. FloatV (np_round2 p)) preds) = Inr r1"
    and g1: "getitem r1 ''Potential_Grade'' = Inr pg"
    and g2: "getitem r1 ''FinalGrade'' = Inr fg"
    and b: "series_binop py_sub pg fg = Inr margin"
    and g3: "getitem (setitem r1 ''Improvability_Margin'' margin) ''Improvability_Margin'' = Inr m1"
    and c: "series_apply clip_lower0 m1 = Inr clipped"
    and g4: "getitem (setitem (setitem r1 ''Improvability_Margin'' margin) ''Improvability_Margin'' clipped)
               ''Improvability_Margin'' = Inr m2"
    and d: "series_apply (\<lambda>c. py_truediv c 20) m2 = Inr q"
    and e: "series_apply (py_sub (IntV 1)) q = Inr score"
    and f: "setitem (setitem (setitem r1 ''Improvability_Margin'' margin) ''Improvability_Margin'' clipped)
               ''Complexity_Score'' score = res"
    by (elim exE conjE)
  from a have len: "length preds = nrows results"
    and r1: "r1 = setitem results ''Potential_Grade'' (map (\<lambda>p. FloatV (np_round2 p)) preds)"
    by (auto simp: setitem_array_def split: if_splits)
  from g1 have pg: "pg = map (\<lambda>p. FloatV (np_round2 p)) preds"
    by (simp add: r1 getitem_setitem)
  have "getitem r1 ''FinalGrade'' = getitem loaded ''FinalGrade''"
    using getitem_select[OF s, of "''FinalGrade''"]
    by (simp add: r1 getitem_setitem passthrough_cols_def)
  with g2 have fg: "getitem loaded ''FinalGrade'' = Inr fg" by simp
  from g3 have m1: "m1 = margin" by (simp add: getitem_setitem)
  from g4 have m2: "m2 = clipped" by (simp add: getitem_setitem)
  from f have res: "res = setitem (setitem (setitem results ''Potential_Grade''
            (map (\<lambda>p. FloatV (np_round2 p)) preds)) ''Improvability_Margin'' clipped)
            ''Complexity_Score'' score"
    by (simp add: r1 setitem_twice)
  from len nrows_select[OF s] have len': "length preds = nrows loaded" by simp
  show ?thesis
    using that[OF X p len' s fg b[unfolded pg] c[unfolded m1] d[unfolded m2] e res] .
qed

section \<open>The dashboard metrics\<close>

lemma py_sub_Float_cases:
  assumes "py_sub (FloatV p) c = Inr z"
  shows "(\<exists>a. grade_value c = Some a \<and> z = FloatV (p - a)) \<or> (c = NaN \<and> z = NaN)"
  using assms by (cases c) auto

lemma dashboard_columns:
  assumes "select_columns loaded passthrough_cols = Inr results"
    and "res = setitem (setitem (setitem results ''Potential_Grade'' pg) ''Improvability_Margin'' m)
            ''Complexity_Score'' sc"
  shows "getitem res ''Potential_Grade'' = Inr pg"
    and "getitem res ''Improvability_Margin'' = Inr m"
    and "getitem res ''Complexity_Score'' = Inr sc"
    and "getitem res ''StudentID'' = getitem loaded ''StudentID''"
    and "getitem res ''FirstName'' = getitem loaded ''FirstName''"
    and "getitem res ''FamilyName'' = getitem loaded ''FamilyName''"
    and "getitem res ''FinalGrade'' = getitem loaded ''FinalGrade''"
    and "nrows res = nrows loaded"
  using assms(2)
  by (simp_all add: getitem_setitem getitem_select[OF assms(1)] nrows_select[OF assms(1)]
        passthrough_cols_def)

text \<open>
  Claim C3, as amended. In every row of the returned table, with \<open>p\<close> the
  \<^verbatim>\<open>Potential_Grade\<close> of that row: if the recorded \<^verbatim>\<open>FinalGrade\<close> is a
  number \<open>a\<close>, the \<^verbatim>\<open>Improvability_Margin\<close> is \<open>max 0 (p - a)\<close>, never
  negative, also when \<open>p < a\<close>; if the recorded \<^verbatim>\<open>FinalGrade\<close> is missing, the
  margin is missing too (the subtraction gives NaN and \<^verbatim>\<open>clip(lower=0)\<close> keeps it),
  so it is neither \<open>max 0 (p - a)\<close> nor a number that is at least 0.
\<close>

theorem improvability_margin_clipped:
  assumes "generate_dashboard_data model feature_cols loaded = Inr res"
    and "getitem loaded ''FinalGrade'' = Inr actual"
    and "i < nrows loaded" and "i < length actual"
  shows "\<exists>potential margin p.
           getitem res ''Potential_Grade'' = Inr potential
         \<and> getitem res ''Improvability_Margin'' = Inr margin
         \<and> i < length potential \<and> i < length margin
         \<and> potential ! i = FloatV p
         \<and> ((\<exists>a. grade_value (actual ! i) = Some a
                  \<and> margin ! i = FloatV (max 0 (p - a)) \<and> 0 \<le> max 0 (p - a))
              \<or> (actual ! i = NaN \<and> margin ! i = NaN))"
proof -
  from assms(1) obtain X preds results fg margin clipped q score where
    len: "length preds = nrows loaded"
    and sel: "select_columns loaded passthrough_cols = Inr results"
    and fg: "getitem loaded ''FinalGrade'' = Inr fg"
    and sub: "series_binop py_sub (map (\<lambda>p. FloatV (np_round2 p)) preds) fg = Inr margin"
    and clip: "series_apply clip_lower0 margin = Inr clipped"
    and res: "res = setitem (setitem (setitem results ''Potential_Grade''
            (map (\<lambda>p. FloatV (np_round2 p)) preds)) ''Improvability_Margin'' clipped)
            ''Complexity_Score'' score"
    by (rule generate_dashboard_data_Inr)
  let ?pg = "map (\<lambda>p. FloatV (np_round2 p)) preds"
  let ?p = "np_round2 (preds ! i)"
  from fg assms(2) have [simp]: "fg = actual" by simp
  from assms(3,4) len have i: "i < length margin" "i < length ?pg"
    using series_binop_length[OF sub] by simp_all
  from i assms(3) len have pgi: "?pg ! i = FloatV ?p" by simp
  from series_binop_nth[OF sub i(1)] pgi have s: "py_sub (FloatV ?p) (actual ! i) = Inr (margin ! i)"
    by simp
  from i(1) series_apply_Inr[OF clip] have ic: "i < length clipped" by simp
  have "(\<exists>a. grade_value (actual ! i) = Some a
             \<and> clipped ! i = FloatV (max 0 (?p - a)) \<and> 0 \<le> max 0 (?p - a))
        \<or> (actual ! i = NaN \<and> clipped ! i = NaN)"
  proof (cases "actual ! i = NaN")
    case True
    with s have "margin ! i = NaN" by simp
    with series_apply_nth[OF clip i(1)] have "clipped ! i = NaN" by simp
    with True show ?thesis by simp
  next
    case False
    with py_sub_Float_cases[OF s] obtain a where a: "grade_value (actual ! i) = Some a"
      and m: "margin ! i = FloatV (?p - a)"
      by blast
    from series_apply_nth[OF clip i(1)] m have "clipped ! i = FloatV (max 0 (?p - a))"
      by (simp add: max.commute)
    with a show ?thesis by simp
  qed
  with dashboard_columns(1,2)[OF sel res] pgi i(2) ic show ?thesis
    by blast
qed

text \<open>
  Claim C4. In every row the \<^verbatim>\<open>Complexity_Score\<close> is 1 minus a twentieth of the
  \<^verbatim>\<open>Improvability_Margin\<close> of that row, with no clamping; a missing margin gives
  a missing score, and a margin of 0 gives exactly 1.
\<close>

theorem complexity_score_formula:
  assumes "generate_dashboard_data model feature_cols loaded = Inr res"
    and "getitem res ''Improvability_Margin'' = Inr margin"
    and "i < length margin"
  shows "\<exists>score. getitem res ''Complexity_Score'' = Inr score \<and> length score = length margin
           \<and> ((\<exists>v. margin ! i = FloatV v \<and> score ! i = FloatV (1 - v / 20))
               \<or> (margin ! i = NaN \<and> score ! i = NaN))
           \<and> (margin ! i = FloatV 0 \<longrightarrow> score ! i = FloatV 1)"
proof -
  from assms(1) obtain X preds results fg m0 clipped q score where
    sel: "select_columns loaded passthrough_cols = Inr results"
    and sub: "series_binop py_sub (map (\<lambda>p. FloatV (np_round2 p)) preds) fg = Inr m0"
    and clip: "series_apply clip_lower0 m0 = Inr clipped"
    and q: "series_apply (\<lambda>c. py_truediv c 20) clipped = Inr q"
    and sc: "series_apply (py_sub (IntV 1)) q = Inr score"
    and res: "res = setitem (setitem (setitem results ''Potential_Grade''
            (map (\<lambda>p. FloatV (np_round2 p)) preds)) ''Improvability_Margin'' clipped)
            ''Complexity_Score'' score"
    by (rule generate_dashboard_data_Inr)
  from dashboard_columns(2)[OF sel res] assms(2) have [simp]: "clipped = margin" by simp
  from clip have l0: "length m0 = length margin"
    using series_apply_Inr[OF clip] by simp
  with assms(3) have i0: "i < length m0" by simp
  from series_binop_length[OF sub] i0 have ip: "i < length preds" by simp
  from series_binop_nth[OF sub i0] ip
  have "py_sub (FloatV (np_round2 (preds ! i))) (fg ! i) = Inr (m0 ! i)" by simp
  then have "(\<exists>v. m0 ! i = FloatV v) \<or> m0 ! i = NaN"
    by (auto dest: py_sub_Float_cases)
  moreover from series_apply_nth[OF clip i0] have "clip_lower0 (m0 ! i) = Inr (margin ! i)" by simp
  ultimately have mi: "(\<exists>v. margin ! i = FloatV v) \<or> margin ! i = NaN"
    by (cases "m0 ! i") (auto simp: eq_commute[of _ "margin ! i"])
  from series_apply_nth[OF q] assms(3) have qi: "py_truediv (margin ! i) 20 = Inr (q ! i)" by simp
  from series_apply_Inr[OF q] assms(3) have iq: "i < length q" and lq: "length q = length margin"
    by simp_all
  from series_apply_nth[OF sc iq] have si: "py_sub (IntV 1) (q ! i) = Inr (score ! i)" .
  from series_apply_Inr[OF sc] lq have ls: "length score = length margin" by simp
  have "(\<exists>v. margin ! i = FloatV v \<and> score ! i = FloatV (1 - v / 20))
               \<or> (margin ! i = NaN \<and> score ! i = NaN)"
  proof (cases "margin ! i")
    case (FloatV v)
    with qi have "q ! i = FloatV (v / 20)"
      by (simp add: py_truediv_def)
    with si have "score ! i = FloatV (1 - v / 20)"
      by simp
    with FloatV show ?thesis by simp
  next
    case NaN
    with qi have "q ! i = NaN"
      by (simp add: py_truediv_def)
    with si have "score ! i = NaN"
      by simp
    with NaN show ?thesis by simp
  qed (use mi in auto)
  with dashboard_columns(3)[OF sel res] ls show ?thesis
    by auto
qed

text \<open>
  Claim C9. \<^verbatim>\<open>Potential_Grade\<close> is the column of the model's predictions, each
  rounded by \<^verbatim>\<open>np.round(., 2)\<close>; the margin is computed from that rounded column and
  the recorded grades, and the score from that margin.
\<close>

theorem potential_grade_rounded:
  assumes "generate_dashboard_data model feature_cols loaded = Inr res"
  shows "\<exists>X preds actual margin clipped q score.
           preprocess_data (ideal_table loaded) (Some feature_cols) = Inr X
         \<and> model X = Inr preds
         \<and> getitem res ''Potential_Grade'' = Inr (map (\<lambda>p. FloatV (np_round2 p)) preds)
         \<and> getitem loaded ''FinalGrade'' = Inr actual
         \<and> series_binop py_sub (map (\<lambda>p. FloatV (np_round2 p)) preds) actual = Inr margin
         \<and> series_apply clip_lower0 margin = Inr clipped
         \<and> getitem res ''Improvability_Margin'' = Inr clipped
         \<and> series_apply (\<lambda>c. py_truediv c 20) clipped = Inr q
         \<and> series_apply (py_sub (IntV 1)) q = Inr score
         \<and> getitem res ''Complexity_Score'' = Inr score"
proof -
  from assms obtain X preds results fg margin clipped q score where
    "preprocess_data (ideal_table loaded) (Some feature_cols) = Inr X"
    and "model X = Inr preds"
    and "length preds = nrows loaded"
    and sel: "select_columns loaded passthrough_cols = Inr results"
    and "getitem loaded ''FinalGrade'' = Inr fg"
    and "series_binop py_sub (map (\<lambda>p. FloatV (np_round2 p)) preds) fg = Inr margin"
    and "series_apply clip_lower0 margin = Inr clipped"
    and "series_apply (\<lambda>c. py_truediv c 20) clipped = Inr q"
    and "series_apply (py_sub (IntV 1)) q = Inr score"
    and res: "res = setitem (setitem (setitem results ''Potential_Grade''
            (map (\<lambda>p. FloatV (np_round2 p)) preds)) ''Improvability_Margin'' clipped)
            ''Complexity_Score'' score"
    by (rule generate_dashboard_data_Inr)
  moreover note dashboard_columns(1,2,3)[OF sel res]
  ultimately show ?thesis by blast
qed

text \<open>
  Claim C8. The identifier, the two names and \<^verbatim>\<open>FinalGrade\<close> of the returned table
  are the columns of the table that was loaded. The model is applied to the encoding
  of the idealised copy and to nothing else: its predictions there give
  \<^verbatim>\<open>Potential_Grade\<close>, and a model that agrees with it on that one table gives the
  same result.
\<close>

theorem passthrough_from_raw:
  assumes "generate_dashboard_data model feature_cols loaded = Inr res"
  shows "getitem res ''StudentID'' = getitem loaded ''StudentID''
       \<and> getitem res ''FirstName'' = getitem loaded ''FirstName''
       \<and> getitem res ''FamilyName'' = getitem loaded ''FamilyName''
       \<and> getitem res ''FinalGrade'' = getitem loaded ''FinalGrade''
       \<and> (\<exists>X preds. preprocess_data (ideal_table loaded) (Some feature_cols) = Inr X
             \<and> model X = Inr preds
             \<and> getitem res ''Potential_Grade'' = Inr (map (\<lambda>p. FloatV (np_round2 p)) preds)
             \<and> (other_model X = model X \<longrightarrow>
                  generate_dashboard_data other_model feature_cols loaded = Inr res))"
proof -
  from assms obtain X preds results clipped score where
    X: "preprocess_data (ideal_table loaded) (Some feature_cols) = Inr X"
    and p: "model X = Inr preds"
    and sel: "select_columns loaded passthrough_cols = Inr results"
    and res: "res = setitem (setitem (setitem results ''Potential_Grade''
            (map (\<lambda>p. FloatV (np_round2 p)) preds)) ''Improvability_Margin'' clipped)
            ''Complexity_Score'' score"
    by (rule generate_dashboard_data_Inr)
  have "generate_dashboard_data other_model feature_cols loaded = Inr res"
    if "other_model X = model X"
    using assms that
    by (simp add: generate_dashboard_data_unfold X and_then_def)
  with X p dashboard_columns[OF sel res] show ?thesis
    by blast
qed

lemma list_all_cols_setitem:
  assumes "list_all (\<lambda>c. length (snd c) = n) (cols df)" and "length xs = n"
  shows "list_all (\<lambda>c. length (snd c) = n) (cols (setitem df c xs))"
  using assms by (auto simp: setitem_def list_all_iff)

lemma list_all_cols_select:
  assumes "list_all P (cols df)" and "select_columns df labels = Inr t"
  shows "list_all P (cols t)"
  using assms by (auto simp: select_columns_def list_all_iff split: if_splits)

lemma well_formed_getitem_length:
  assumes "well_formed df" and "getitem df k = Inr xs"
  shows "length xs = nrows df"
proof -
  from assms(2) have "(k, xs) \<in> set (cols df)"
    by (auto simp: getitem_def split: option.splits dest: map_of_SomeD)
  with assms(1) show ?thesis
    by (auto simp: well_formed_def list_all_iff)
qed

text \<open>
  Claim C10. For a well-formed input on which the pipeline succeeds, the returned
  table is well formed with as many rows as the input, its columns are the four
  passthrough columns followed by the three computed ones, and the passthrough
  columns are those of the input, row by row.
\<close>

theorem dashboard_rows_preserved:
  assumes "generate_dashboard_data model feature_cols loaded = Inr res"
    and "well_formed loaded"
  shows "well_formed res \<and> nrows res = nrows loaded \<and> colnames res = dashboard_cols
       \<and> getitem res ''StudentID'' = getitem loaded ''StudentID''
       \<and> getitem res ''FirstName'' = getitem loaded ''FirstName''
       \<and> getitem res ''FamilyName'' = getitem loaded ''FamilyName''
       \<and> getitem res ''FinalGrade'' = getitem loaded ''FinalGrade''"
proof -
  from assms(1) obtain X preds results fg margin clipped q score where
    len: "length preds = nrows loaded"
    and sel: "select_columns loaded passthrough_cols = Inr results"
    and fg: "getitem loaded ''FinalGrade'' = Inr fg"
    and sub: "series_binop py_sub (map (\<lambda>p. FloatV (np_round2 p)) preds) fg = Inr margin"
    and clip: "series_apply clip_lower0 margin = Inr clipped"
    and q: "series_apply (\<lambda>c. py_truediv c 20) clipped = Inr q"
    and sc: "series_apply (py_sub (IntV 1)) q = Inr score"
    and res: "res = setitem (setitem (setitem results ''Potential_Grade''
            (map (\<lambda>p. FloatV (np_round2 p)) preds)) ''Improvability_Margin'' clipped)
            ''Complexity_Score'' score"
    by (rule generate_dashboard_data_Inr)
  let ?n = "nrows loaded"
  from assms(2) have d: "distinct (colnames loaded)"
    and l: "list_all (\<lambda>c. length (snd c) = ?n) (cols loaded)"
    by (simp_all add: well_formed_def)
  from colnames_select_distinct[OF sel d] have names: "colnames results = passthrough_cols" .
  from list_all_cols_select[OF l sel] have l0: "list_all (\<lambda>c. length (snd c) = ?n) (cols results)" .
  from well_formed_getitem_length[OF assms(2) fg] have lfg: "length fg = ?n" .
  from series_binop_length[OF sub] len lfg have "length margin = ?n" by simp
  with series_apply_Inr[OF clip] have lc: "length clipped = ?n" by simp
  with series_apply_Inr[OF q] series_apply_Inr[OF sc] have ls: "length score = ?n" by simp
  from names have cn: "colnames res = dashboard_cols"
    by (simp add: res colnames_setitem dashboard_cols_def passthrough_cols_def)
  have "list_all (\<lambda>c. length (snd c) = ?n) (cols res)"
    unfolding res
    by (intro list_all_cols_setitem l0 ls lc) (simp add: len)
  with cn dashboard_columns(8)[OF sel res] have "well_formed res"
    by (simp add: well_formed_def dashboard_cols_def passthrough_cols_def)
  with cn dashboard_columns[OF sel res] show ?thesis by simp
qed

section \<open>The encoder\<close>

lemma and_then_Inr_left [simp]: "and_then (Inr x) f = f x"
  by (simp add: and_then_def)

lemma and_then_Inl_left [simp]: "and_then (Inl e) f = Inl e"
  by (simp add: and_then_def)

lemma and_then_Inr_right [simp]: "and_then r Inr = r"
  by (cases r) simp_all

lemma and_then_assoc: "and_then (and_then r f) g = and_then r (\<lambda>x. and_then (f x) g)"
  by (cases r) simp_all

lemma map_fields_append:
  "map_fields df (fs @ gs) = and_then (map_fields df fs) (\<lambda>d. map_fields d gs)"
proof (induction fs arbitrary: df)
  case Nil then show ?case by simp
next
  case (Cons f fs)
  then show ?case by (cases f) (simp add: and_then_assoc)
qed

lemma map_columns_fields: "map_columns df cs d = map_fields df (map (\<lambda>c. (c, d)) cs)"
  by (induction cs arbitrary: df) simp_all

lemma binary_mappings_fields:
  "binary_mappings df =
     map_fields (drop_columns df (filter (\<lambda>c. c \<in> set (colnames df)) drop_cols)) categorical_fields"
  by (simp add: binary_mappings_def categorical_fields_def map_fields_append map_columns_fields
        and_then_assoc)

lemma map_fields_Inl:
  "map_fields df fs = Inl e \<longleftrightarrow> e = KeyError \<and> \<not> fst ` set fs \<subseteq> set (colnames df)"
proof (induction fs arbitrary: df)
  case Nil then show ?case by simp
next
  case (Cons f fs)
  obtain c d where f: "f = (c, d)" by (cases f)
  show ?case
  proof (cases "map_column df c d")
    case (Inl e')
    then have "e' = KeyError" "c \<notin> set (colnames df)"
      by (simp_all add: map_column_Inl)
    with Inl f show ?thesis by auto
  next
    case (Inr df')
    with Cons.IH[of df'] map_column_Inr(1,3)[OF Inr] f show ?thesis
      by auto
  qed
qed

lemma map_fields_Inr:
  assumes "map_fields df fs = Inr df'" and "distinct (map fst fs)"
  shows "colnames df' = colnames df \<and> nrows df' = nrows df \<and>
         getitem df' k = (case map_of fs k of
                            Some d \<Rightarrow> map_sum id (series_map d) (getitem df k)
                          | None \<Rightarrow> getitem df k)"
  using assms
proof (induction fs arbitrary: df)
  case Nil then show ?case by simp
next
  case (Cons f fs)
  obtain c d where f: "f = (c, d)" by (cases f)
  from Cons.prems(1) f obtain df1 where 1: "map_column df c d = Inr df1"
    and 2: "map_fields df1 fs = Inr df'"
    by (cases "map_column df c d") auto
  from Cons.prems(2) f have nc: "map_of fs c = None" and dist: "distinct (map fst fs)"
    by (simp_all add: map_of_eq_None_iff)
  from Cons.IH[OF 2 dist] map_column_Inr(1,2)[OF 1] map_column_Inr(4)[OF 1, of k] f nc
  show ?case
    by (cases "k = c") (auto split: option.splits)
qed

lemma distinct_categorical_fields: "distinct (map fst categorical_fields)"
  by (simp add: categorical_fields_def cols_yes_no_def)

lemma categorical_not_dropped: "(f, d) \<in> set categorical_fields \<Longrightarrow> f \<notin> set drop_cols"
  by (auto simp: categorical_fields_def cols_yes_no_def drop_cols_def)

lemma getitem_drop_ids:
  "getitem (drop_columns df (filter (\<lambda>c. c \<in> set (colnames df)) drop_cols)) k =
     (if k \<in> set drop_cols then Inl KeyError else getitem df k)"
  by (cases rule: getitem_cases[of k df]) (auto simp: getitem_drop_columns)

lemma colnames_drop_ids:
  "colnames (drop_columns df (filter (\<lambda>c. c \<in> set (colnames df)) drop_cols)) =
     filter (\<lambda>n. n \<notin> set drop_cols) (colnames df)"
  by (auto simp: colnames_drop_columns intro!: filter_cong)

lemma binary_mappings_Inl:
  "binary_mappings df = Inl e \<longleftrightarrow>
     e = KeyError \<and> \<not> set (map fst categorical_fields) \<subseteq> set (colnames df)"
proof -
  have "fst ` set categorical_fields \<inter> set drop_cols = {}"
    using categorical_not_dropped by fastforce
  then show ?thesis
    unfolding binary_mappings_fields map_fields_Inl colnames_drop_ids by auto
qed

lemma binary_mappings_Inr:
  assumes "binary_mappings df = Inr d"
  shows "nrows d = nrows df"
    and "colnames d = filter (\<lambda>n. n \<notin> set drop_cols) (colnames df)"
    and "(f, m) \<in> set categorical_fields \<Longrightarrow> getitem d f = map_sum id (series_map m) (getitem df f)"
    and "k \<notin> set drop_cols \<Longrightarrow> k \<notin> set (map fst categorical_fields) \<Longrightarrow> getitem d k = getitem df k"
proof -
  let ?d0 = "drop_columns df (filter (\<lambda>c. c \<in> set (colnames df)) drop_cols)"
  from assms have m: "map_fields ?d0 categorical_fields = Inr d"
    by (simp add: binary_mappings_fields)
  note * = map_fields_Inr[OF m distinct_categorical_fields]
  from * show "nrows d = nrows df" by (simp add: drop_columns_def)
  from * show "colnames d = filter (\<lambda>n. n \<notin> set drop_cols) (colnames df)"
    by (simp add: colnames_drop_ids)
  show "getitem d f = map_sum id (series_map m) (getitem df f)" if "(f, m) \<in> set categorical_fields"
  proof -
    from that have "map_of categorical_fields f = Some m"
      using distinct_categorical_fields by simp
    with *[of f] categorical_not_dropped[OF that] show ?thesis
      by (simp add: getitem_drop_ids)
  qed
  show "getitem d k = getitem df k"
    if "k \<notin> set drop_cols" "k \<notin> set (map fst categorical_fields)"
  proof -
    from that(2) have "map_of categorical_fields k = None"
      by (simp add: map_of_eq_None_iff)
    with *[of k] that(1) show ?thesis
      by (simp add: getitem_drop_ids)
  qed
qed

lemma get_dummies_missing:
  "\<not> set cs \<subseteq> set (colnames df) \<Longrightarrow> get_dummies df cs = Inl KeyError"
  by (auto simp: get_dummies_def list_all_iff)

lemma get_dummies_Inr:
  assumes "get_dummies df cs = Inr d"
  shows "nrows d = nrows df"
    and "set cs \<subseteq> set (colnames df)"
    and "k \<notin> set cs \<Longrightarrow> k \<in> set (colnames df) \<Longrightarrow> getitem d k = getitem df k"
proof -
  from assms obtain ds where sub: "set cs \<subseteq> set (colnames df)"
    and d: "d = df\<lparr>cols := cols (drop_columns df cs) @ ds\<rparr>"
    by (auto simp: get_dummies_def list_all_iff and_then_Inr split: if_splits)
  from d show "nrows d = nrows df" by simp
  from sub show "set cs \<subseteq> set (colnames df)" .
  show "getitem d k = getitem df k" if "k \<notin> set cs" "k \<in> set (colnames df)"
  proof -
    from that(2) obtain xs where xs: "map_of (cols df) k = Some xs"
      by (cases "map_of (cols df) k") (auto simp: colnames_def map_of_eq_None_iff)
    with that(1) have "map_of (filter (\<lambda>c. fst c \<notin> set cs) (cols df)) k = Some xs"
      by (simp add: map_of_filter_not)
    with xs show ?thesis
      by (simp add: d getitem_def drop_columns_def map_add_def)
  qed
qed

lemma feature_engineering_Inr:
  assumes "feature_engineering df = Inr d"
  shows "nrows d = nrows df"
    and "k \<notin> set engineered_cols \<Longrightarrow> getitem d k = getitem df k"
proof -
  from assms have "\<exists>t u a p. d = setitem (setitem (setitem (setitem df ''Parent_Edu_Total'' t)
      ''Parent_Edu_Diff'' u) ''Total_Alcohol'' a) ''Party_Life'' p"
    unfolding feature_engineering_def
    apply (simp only: and_then_Inr Let_def sum.inject)
    apply (elim exE conjE)
    apply blast
    done
  then obtain t u a p where d: "d = setitem (setitem (setitem (setitem df ''Parent_Edu_Total'' t)
      ''Parent_Edu_Diff'' u) ''Total_Alcohol'' a) ''Party_Life'' p"
    by blast
  from d show "nrows d = nrows df" by simp
  show "getitem d k = getitem df k" if "k \<notin> set engineered_cols"
    using that by (auto simp: d getitem_setitem engineered_cols_def)
qed

lemma preprocess_data_None:
  "preprocess_data df None =
     and_then (binary_mappings df) (\<lambda>d. and_then (get_dummies d nominal_cols) feature_engineering)"
  by (simp add: preprocess_data_def cong: sum.case_cong)

lemma preprocess_data_Some:
  "preprocess_data df (Some S) = and_then (preprocess_data df None) (\<lambda>e. reconcile e S)"
  by (simp add: preprocess_data_def and_then_assoc)

lemma preprocess_data_missing_field:
  assumes "\<not> set required_fields \<subseteq> set (colnames df)"
  shows "preprocess_data df tc = Inl KeyError"
proof (cases "binary_mappings df")
  case (Inl e)
  then have "e = KeyError" by (simp add: binary_mappings_Inl)
  with Inl show ?thesis by (simp add: preprocess_data_def)
next
  case (Inr d)
  have "\<not> binary_mappings df = Inl KeyError" using Inr by simp
  then have cat: "set (map fst categorical_fields) \<subseteq> set (colnames df)"
    by (simp add: binary_mappings_Inl)
  with assms obtain c where c: "c \<in> set nominal_cols" "c \<notin> set (colnames df)"
    by (auto simp: required_fields_def)
  with binary_mappings_Inr(2)[OF Inr] have "\<not> set nominal_cols \<subseteq> set (colnames d)"
    by auto
  then have "get_dummies d nominal_cols = Inl KeyError"
    by (rule get_dummies_missing)
  with Inr show ?thesis by (simp add: preprocess_data_def)
qed

lemma preprocess_data_categorical:
  assumes "preprocess_data df None = Inr e" and "(f, m) \<in> set categorical_fields"
  shows "getitem e f = map_sum id (series_map m) (getitem df f)"
proof -
  from assms(1) obtain d1 d2 where 1: "binary_mappings df = Inr d1"
    and 2: "get_dummies d1 nominal_cols = Inr d2" and 3: "feature_engineering d2 = Inr e"
    by (auto simp: preprocess_data_None and_then_Inr)
  from assms(2) have f: "f \<notin> set nominal_cols" "f \<notin> set engineered_cols" "f \<notin> set drop_cols"
    by (auto simp: categorical_fields_def cols_yes_no_def nominal_cols_def engineered_cols_def
          drop_cols_def)
  have "\<not> binary_mappings df = Inl KeyError" using 1 by simp
  then have "set (map fst categorical_fields) \<subseteq> set (colnames df)"
    by (simp add: binary_mappings_Inl)
  with assms(2) have "f \<in> set (colnames df)" by force
  with f(3) have "f \<in> set (colnames d1)"
    by (simp add: binary_mappings_Inr(2)[OF 1])
  with feature_engineering_Inr(2)[OF 3 f(2)] get_dummies_Inr(3)[OF 2 f(1)]
    binary_mappings_Inr(3)[OF 1 assms(2)]
  show ?thesis by simp
qed

lemma series_map_length [simp]: "length (series_map d xs) = length xs"
  by (simp add: series_map_def)

lemma series_map_invalid:
  assumes "i < length xs" and "dict_get d (xs ! i) = None"
  shows "series_map d xs ! i = NaN"
proof -
  from assms have "\<not> list_all (\<lambda>c. dict_get d c \<noteq> None) xs"
    by (auto simp: list_all_iff)
  with assms show ?thesis
    by (simp add: series_map_def)
qed

text \<open>
  Claim C1, as amended. A value outside the dictionary of a two-valued field raises
  nothing: whenever \<^verbatim>\<open>preprocess_data\<close> returns a table, that field holds the
  missing value in the row of the unknown value (provided the field is kept by the
  training columns, when these are given).
\<close>

theorem invalid_category_becomes_missing:
  assumes "preprocess_data df training_columns = Inr t"
    and "(field, mapping) \<in> set categorical_fields"
    and "getitem df field = Inr xs" and "i < length xs"
    and "dict_get mapping (xs ! i) = None"
    and "training_columns = None \<or> (\<exists>S. training_columns = Some S \<and> field \<in> set S)"
  shows "\<exists>ys. getitem t field = Inr ys \<and> length ys = length xs \<and> ys ! i = NaN"
proof -
  from assms(1) obtain e where e: "preprocess_data df None = Inr e"
    by (cases training_columns) (auto simp: preprocess_data_Some and_then_Inr)
  from preprocess_data_categorical[OF e assms(2)] assms(3)
  have ge: "getitem e field = Inr (series_map mapping xs)" by simp
  have "getitem t field = Inr (series_map mapping xs)"
  proof (cases training_columns)
    case None
    with assms(1) e ge show ?thesis by simp
  next
    case (Some S)
    with assms(6) have S: "field \<in> set S" by simp
    from assms(1) Some e have "reconcile e S = Inr t"
      by (simp add: preprocess_data_Some)
    from getitem_reconcile[OF this, of field] S ge getitem_Inr_mem[OF ge] show ?thesis
      by simp
  qed
  with series_map_invalid[OF assms(4,5)] show ?thesis by simp
qed

lemma filter_label_Cons_other:
  "fst a \<notin> set ls \<Longrightarrow>
   map (\<lambda>l. filter (\<lambda>c. fst c = l) (a # cs)) ls = map (\<lambda>l. filter (\<lambda>c. fst c = l) cs) ls"
  by (induction ls) auto

lemma filter_label_absent:
  "l \<notin> set (map fst cs) \<Longrightarrow> filter (\<lambda>c. fst c = l) cs = []"
  by (induction cs) auto

lemma concat_filter_own_labels:
  assumes "distinct (map fst cs)"
  shows "concat (map (\<lambda>l. filter (\<lambda>c. fst c = l) cs) (map fst cs)) = cs"
  using assms
proof (induction cs)
  case Nil then show ?case by simp
next
  case (Cons a cs)
  from Cons.prems have a: "fst a \<notin> set (map fst cs)" and d: "distinct (map fst cs)"
    by simp_all
  have e1: "filter (\<lambda>c. fst c = fst a) (a # cs) = [a]"
    using filter_label_absent[OF a] by simp
  have e2: "concat (map (\<lambda>l. filter (\<lambda>c. fst c = l) (a # cs)) (map fst cs)) = cs"
    unfolding filter_label_Cons_other[OF a] by (rule Cons.IH[OF d])
  have "concat (map (\<lambda>l. filter (\<lambda>c. fst c = l) (a # cs)) (map fst (a # cs)))
      = filter (\<lambda>c. fst c = fst a) (a # cs)
        @ concat (map (\<lambda>l. filter (\<lambda>c. fst c = l) (a # cs)) (map fst cs))"
    by (simp only: list.map concat.simps)
  then show ?case
    unfolding e1 e2 by simp
qed

lemma fill_missing_present: "set S \<subseteq> set (colnames df) \<Longrightarrow> fill_missing df S = df"
  by (induction S arbitrary: df) auto

lemma reconcile_idempotent:
  assumes "reconcile e S = Inr t" and "distinct (colnames e)" and "distinct S"
  shows "reconcile t S = Inr t"
proof -
  from colnames_reconcile[OF assms(1,2)] have names: "colnames t = S" .
  then have "fill_missing t S = t"
    by (simp add: fill_missing_present)
  moreover from names assms(3) have "select_columns t S = Inr t"
    using concat_filter_own_labels[of "cols t"]
    by (simp add: select_columns_def colnames_def list_all_iff)
  ultimately show ?thesis by (simp add: reconcile_def)
qed

text \<open>
  Claim C6, as amended. Encoding is not idempotent: when the training columns omit
  one of the sixteen raw fields that the mapping and one-hot steps read, encoding the
  encoded table again fails with \<open>KeyError\<close>. Idempotent is the reconciliation of
  lines 52 to 56 alone, for training columns without repetition on a table with
  distinct labels.
\<close>

theorem reencoding_not_idempotent:
  assumes "preprocess_data df (Some S) = Inr t"
  shows "(\<not> set required_fields \<subseteq> set S \<longrightarrow>
            preprocess_data t (Some S) = Inl KeyError
          \<and> preprocess_data t (Some S) \<noteq> preprocess_data df (Some S))
       \<and> (\<exists>e. preprocess_data df None = Inr e \<and> reconcile e S = Inr t
              \<and> (distinct (colnames e) \<and> distinct S \<longrightarrow> reconcile t S = Inr t))"
proof -
  from assms obtain e where e: "preprocess_data df None = Inr e" and r: "reconcile e S = Inr t"
    by (auto simp: preprocess_data_Some and_then_Inr)
  from set_colnames_reconcile[OF r] have "set (colnames t) = set S" .
  then have "preprocess_data t (Some S) = Inl KeyError" if "\<not> set required_fields \<subseteq> set S"
    using that by (intro preprocess_data_missing_field) simp
  with assms e r reconcile_idempotent[OF r] show ?thesis
    by auto
qed

lemma preprocess_data_schema_columns:
  assumes "preprocess_data df None = Inr e"
  shows "\<exists>t. preprocess_data df (Some S) = Inr t \<and> nrows t = nrows e
           \<and> set (colnames t) = set S
           \<and> (distinct (colnames e) \<longrightarrow> colnames t = S)
           \<and> (\<forall>k. getitem t k =
                 (if k \<in> set S then (if k \<in> set (colnames e) then getitem e k
                                      else Inr (replicate (nrows e) (IntV 0)))
                  else Inl KeyError))"
proof -
  from reconcile_succeeds[of e S] obtain t where r: "reconcile e S = Inr t" by blast
  with assms have "preprocess_data df (Some S) = Inr t"
    by (simp add: preprocess_data_Some)
  with nrows_reconcile[OF r] set_colnames_reconcile[OF r] colnames_reconcile[OF r]
    getitem_reconcile[OF r]
  show ?thesis by auto
qed

section \<open>The example student through the pipeline\<close>

lemma student_binary_mappings: "binary_mappings (student_ideal g) = Inr (student_mapped g)"
  by code_simp

lemma student_get_dummies:
  "and_then (get_dummies (student_mapped g) nominal_cols) feature_engineering
     = Inr (student_engineered g)"
  by code_simp

lemma student_unreconciled: "preprocess_data (student_ideal g) None = Inr (student_engineered g)"
  by (simp add: preprocess_data_None student_binary_mappings student_get_dummies)

lemma student_reconcile: "reconcile (student_engineered g) example_features = Inr student_encoded"
  by code_simp

lemma student_encoding:
  "preprocess_data (student_ideal g) (Some example_features) = Inr student_encoded"
  by (simp add: preprocess_data_Some student_unreconciled student_reconcile)

lemma student_select: "select_columns (student g) passthrough_cols = Inr (student_passthrough g)"
  by code_simp

lemma student_dashboard_eval:
  assumes "model student_encoded = Inr [p]"
  shows "generate_dashboard_data model example_features (student g) = Inr (student_dashboard g p)"
  using assms
  by (simp add: generate_dashboard_data_unfold ideal_table_student student_encoding student_select
        setitem_array_def student_passthrough_def setitem_def colnames_def getitem_def
        py_truediv_def student_dashboard_def)

lemma np_round2_examples:
  "np_round2 14 = 14" "np_round2 15 = 15" "np_round2 13 = 13" "np_round2 (7297 / 512) = 57 / 4"
  by code_simp+

text \<open>
  The rounding is that of the doubles, not of the numbers they stand for. The double
  nearest to 2.675 lies below 2.675; its product with 100 is rounded to the double 267.5,
  which \<^verbatim>\<open>rint\<close> takes to 268, and the result is the double nearest to 2.68. Rounding
  the exact value to the nearest hundredth would give 2.67.
\<close>

lemma np_round2_double:
  "np_round2 (3011782250804019 / 1125899906842624) = 6034823500676465 / 2251799813685248"
  "of_int (rint (3011782250804019 / 1125899906842624 * 100)) / (100 :: rat) = 267 / 100"
  by code_simp+

lemma student_columns:
  "getitem (student g) ''FinalGrade'' = Inr [IntV g]"
  "getitem (student g) ''studytime'' = Inr [IntV 1]"
  "getitem (student g) ''Dalc'' = Inr [IntV 3]"
  "getitem (student g) ''Walc'' = Inr [IntV 4]"
  "getitem (student g) ''absences'' = Inr [IntV 10]"
  "getitem (student g) ''goout'' = Inr [IntV 5]"
  "getitem (student g) ''Medu'' = Inr [IntV 2]"
  "getitem (student g) ''Fedu'' = Inr [IntV 2]"
  "nrows (student g) = 1"
  by (simp_all add: student_def getitem_def)

lemma student_ideal_columns:
  "getitem (student_ideal g) ''studytime'' = Inr [IntV 4]"
  "getitem (student_ideal g) ''Dalc'' = Inr [IntV 1]"
  "getitem (student_ideal g) ''Walc'' = Inr [IntV 1]"
  "getitem (student_ideal g) ''absences'' = Inr [IntV 0]"
  "getitem (student_ideal g) ''goout'' = Inr [IntV 2]"
  by (simp_all add: student_ideal_def getitem_def)

lemma student_dashboard_columns:
  "getitem (student_dashboard g p) ''Potential_Grade'' = Inr [FloatV (np_round2 p)]"
  "getitem (student_dashboard g p) ''Improvability_Margin'' = Inr [FloatV (max (np_round2 p - of_int g) 0)]"
  "getitem (student_dashboard g p) ''Complexity_Score''
     = Inr [FloatV (1 - max (np_round2 p - of_int g) 0 / 20)]"
  "getitem (student_dashboard g p) ''FinalGrade'' = Inr [IntV g]"
  by (simp_all add: student_dashboard_def getitem_def)

text \<open>
  Claim C7. The student with \<^verbatim>\<open>studytime=1, Dalc=3, Walc=4, absences=10, goout=5,
  Medu=2, Fedu=2, FinalGrade=10\<close>: the idealised copy has \<^verbatim>\<open>studytime=4, Dalc=1,
  Walc=1, absences=0, goout=2\<close>; its encoding has \<^verbatim>\<open>Total_Alcohol = 3\<close> and
  \<^verbatim>\<open>Party_Life = 18\<close>, computed from the overridden values; and when the model
  predicts 14 for that encoding, the pipeline returns \<^verbatim>\<open>Potential_Grade = 14\<close>,
  \<^verbatim>\<open>Improvability_Margin = 4\<close> and \<^verbatim>\<open>Complexity_Score = 0.8\<close>.
\<close>

theorem end_to_end_example:
  assumes "model student_encoded = Inr [14]"
  shows "getitem (student 10) ''studytime'' = Inr [IntV 1]
       \<and> getitem (student 10) ''Dalc'' = Inr [IntV 3]
       \<and> getitem (student 10) ''Walc'' = Inr [IntV 4]
       \<and> getitem (student 10) ''absences'' = Inr [IntV 10]
       \<and> getitem (student 10) ''goout'' = Inr [IntV 5]
       \<and> getitem (student 10) ''Medu'' = Inr [IntV 2]
       \<and> getitem (student 10) ''Fedu'' = Inr [IntV 2]
       \<and> getitem (student 10) ''FinalGrade'' = Inr [IntV 10]
       \<and> create_ideal_profile [student 10] 0 = (1, [student 10, student_ideal 10])
       \<and> getitem (student_ideal 10) ''studytime'' = Inr [IntV 4]
       \<and> getitem (student_ideal 10) ''Dalc'' = Inr [IntV 1]
       \<and> getitem (student_ideal 10) ''Walc'' = Inr [IntV 1]
       \<and> getitem (student_ideal 10) ''absences'' = Inr [IntV 0]
       \<and> getitem (student_ideal 10) ''goout'' = Inr [IntV 2]
       \<and> preprocess_data (student_ideal 10) (Some example_features) = Inr student_encoded
       \<and> getitem student_encoded ''Total_Alcohol'' = Inr [IntV 3]
       \<and> getitem student_encoded ''Party_Life'' = Inr [IntV 18]
       \<and> (\<exists>res. generate_dashboard_data model example_features (student 10) = Inr res
             \<and> getitem res ''Potential_Grade'' = Inr [FloatV 14]
             \<and> getitem res ''Improvability_Margin'' = Inr [FloatV 4]
             \<and> getitem res ''Complexity_Score'' = Inr [FloatV (8 / 10)])"
proof -
  have "create_ideal_profile [student 10] 0 = (1, [student 10, student_ideal 10])"
    by (simp add: create_ideal_profile_eq ideal_table_student)
  moreover have "getitem student_encoded ''Total_Alcohol'' = Inr [IntV 3]"
    "getitem student_encoded ''Party_Life'' = Inr [IntV 18]"
    by (simp_all add: student_encoded_def getitem_def)
  moreover have "getitem (student_dashboard 10 14) ''Potential_Grade'' = Inr [FloatV 14]"
    "getitem (student_dashboard 10 14) ''Improvability_Margin'' = Inr [FloatV 4]"
    "getitem (student_dashboard 10 14) ''Complexity_Score'' = Inr [FloatV (8 / 10)]"
    by (simp_all add: student_dashboard_columns np_round2_examples)
  ultimately show ?thesis
    using student_dashboard_eval[where model = model and p = 14 and g = 10, OF assms]
      student_encoding[of 10]
    by (simp add: student_columns student_ideal_columns)
qed

theorem end_to_end_example_witness:
  "(\<lambda>X. Inr [14]) student_encoded = (Inr [14] :: pyerr + rat list)
   \<and> getitem student_encoded ''Total_Alcohol'' = Inr [IntV 3]
   \<and> getitem student_encoded ''Party_Life'' = Inr [IntV 18]
   \<and> (\<exists>res. generate_dashboard_data (\<lambda>X. Inr [14]) example_features (student 10) = Inr res
         \<and> getitem res ''Potential_Grade'' = Inr [FloatV 14]
         \<and> getitem res ''Improvability_Margin'' = Inr [FloatV 4]
         \<and> getitem res ''Complexity_Score'' = Inr [FloatV (8 / 10)])"
  using end_to_end_example[of "\<lambda>X. Inr [14]"] by simp

theorem complexity_score_formula_witness:
  "generate_dashboard_data (\<lambda>X. Inr [15]) example_features (student 18)
      = Inr (student_dashboard 18 15)
   \<and> getitem (student_dashboard 18 15) ''Improvability_Margin'' = Inr [FloatV 0]
   \<and> getitem (student_dashboard 18 15) ''Complexity_Score'' = Inr [FloatV 1]
   \<and> (\<exists>score. getitem (student_dashboard 18 15) ''Complexity_Score'' = Inr score
         \<and> length score = length [FloatV 0]
         \<and> score ! 0 = FloatV 1)"
proof -
  have g: "generate_dashboard_data (\<lambda>X. Inr [15]) example_features (student 18)
      = Inr (student_dashboard 18 15)"
    by (rule student_dashboard_eval) simp
  have m: "getitem (student_dashboard 18 15) ''Improvability_Margin'' = Inr [FloatV 0]"
    by (simp add: student_dashboard_columns np_round2_examples)
  from complexity_score_formula[OF g m, of 0] g m show ?thesis
    by (auto simp: student_dashboard_columns np_round2_examples)
qed

theorem passthrough_from_raw_witness:
  "generate_dashboard_data (\<lambda>X. Inr [14]) example_features (student 10)
      = Inr (student_dashboard 10 14)
   \<and> (\<lambda>X. Inr (replicate (nrows X) 14)) student_encoded = (\<lambda>X. Inr [14 :: rat]) student_encoded
   \<and> generate_dashboard_data (\<lambda>X. Inr (replicate (nrows X) 14)) example_features (student 10)
      = Inr (student_dashboard 10 14)
   \<and> getitem (student_dashboard 10 14) ''StudentID'' = getitem (student 10) ''StudentID''
   \<and> getitem (student_dashboard 10 14) ''FirstName'' = getitem (student 10) ''FirstName''
   \<and> getitem (student_dashboard 10 14) ''FamilyName'' = getitem (student 10) ''FamilyName''
   \<and> getitem (student_dashboard 10 14) ''FinalGrade'' = getitem (student 10) ''FinalGrade''
   \<and> getitem (student 10) ''FinalGrade'' = Inr [IntV 10]"
proof -
  have g: "generate_dashboard_data (\<lambda>X. Inr [14]) example_features (student 10)
      = Inr (student_dashboard 10 14)"
    by (rule student_dashboard_eval) simp
  have e: "(\<lambda>X. Inr (replicate (nrows X) 14)) student_encoded = (\<lambda>X. Inr [14 :: rat]) student_encoded"
    by (simp add: student_encoded_def)
  from passthrough_from_raw[OF g, of "\<lambda>X. Inr (replicate (nrows X) 14)"] g e show ?thesis
    by (auto simp: ideal_table_student student_encoding student_columns)
qed

section \<open>An unknown category and a colliding label\<close>

lemma unknown_sex_table: "student_unknown_sex = (student 10)\<lparr>cols := (''StudentID'', [IntV 1]) #
    (''FirstName'', [StrV ''Ada'']) # (''FamilyName'', [StrV ''Byron'']) # (''sex'', [StrV ''X'']) #
    drop 4 (cols (student 10))\<rparr>"
  by (simp add: student_unknown_sex_def setitem_def colnames_def student_def)

lemma unknown_sex_binary_mappings: "binary_mappings student_unknown_sex = Inr unknown_sex_mapped"
  unfolding unknown_sex_table by code_simp

lemma unknown_sex_get_dummies:
  "and_then (get_dummies unknown_sex_mapped nominal_cols) feature_engineering
     = Inr unknown_sex_encoded"
  by code_simp

lemma unknown_sex_encoding: "preprocess_data student_unknown_sex None = Inr unknown_sex_encoded"
  by (simp add: preprocess_data_None unknown_sex_binary_mappings unknown_sex_get_dummies)

lemma unknown_sex_reconcile:
  "reconcile unknown_sex_encoded example_features = Inr unknown_sex_reconciled"
  by code_simp

lemma unknown_sex_reconciling:
  "preprocess_data student_unknown_sex (Some example_features) = Inr unknown_sex_reconciled"
  by (simp add: preprocess_data_Some unknown_sex_encoding unknown_sex_reconcile)

lemma colliding_binary_mappings: "binary_mappings colliding_students = Inr colliding_mapped"
  by code_simp

lemma colliding_get_dummies:
  "and_then (get_dummies colliding_mapped nominal_cols) feature_engineering
     = Inr colliding_engineered"
  by code_simp

lemma colliding_unreconciled: "preprocess_data colliding_students None = Inr colliding_engineered"
  by (simp add: preprocess_data_None colliding_binary_mappings colliding_get_dummies)

lemma colliding_reconcile:
  "reconcile colliding_engineered [''Medu'', ''Mjob_teacher''] = Inr colliding_encoded"
  by code_simp

lemma colliding_encoding:
  "preprocess_data colliding_students (Some [''Medu'', ''Mjob_teacher'']) = Inr colliding_encoded"
  by (simp add: preprocess_data_Some colliding_unreconciled colliding_reconcile)

lemma unknown_sex_columns:
  "getitem student_unknown_sex ''sex'' = Inr [StrV ''X'']"
  "getitem unknown_sex_encoded ''sex'' = Inr [NaN]"
  "getitem unknown_sex_reconciled ''sex'' = Inr [NaN]"
  "dict_get SEX_MAPPING (StrV ''X'') = None"
proof -
  show "getitem student_unknown_sex ''sex'' = Inr [StrV ''X'']"
    by (simp add: student_unknown_sex_def getitem_setitem)
qed (simp_all add: unknown_sex_encoded_def unknown_sex_reconciled_def getitem_def dict_get_def
       SEX_MAPPING_def)

theorem invalid_category_counterexample:
  "getitem student_unknown_sex ''sex'' = Inr [StrV ''X'']
   \<and> dict_get SEX_MAPPING (StrV ''X'') = None
   \<and> preprocess_data student_unknown_sex None = Inr unknown_sex_encoded
   \<and> getitem unknown_sex_encoded ''sex'' = Inr [NaN]"
  by (simp add: unknown_sex_columns unknown_sex_encoding)

theorem invalid_category_becomes_missing_witness:
  "preprocess_data student_unknown_sex (Some example_features) = Inr unknown_sex_reconciled
   \<and> (''sex'', SEX_MAPPING) \<in> set categorical_fields
   \<and> getitem student_unknown_sex ''sex'' = Inr [StrV ''X'']
   \<and> dict_get SEX_MAPPING ([StrV ''X''] ! 0) = None
   \<and> ''sex'' \<in> set example_features
   \<and> (\<exists>ys. getitem unknown_sex_reconciled ''sex'' = Inr ys
          \<and> length ys = length [StrV ''X''] \<and> ys ! 0 = NaN)"
proof -
  have f: "(''sex'', SEX_MAPPING) \<in> set categorical_fields"
    by (simp add: categorical_fields_def)
  have d: "dict_get SEX_MAPPING ([StrV ''X''] ! 0) = None"
    by (simp add: unknown_sex_columns)
  have s: "''sex'' \<in> set example_features"
    by (simp add: example_features_def)
  then have c: "Some example_features = None
      \<or> (\<exists>S. Some example_features = Some S \<and> ''sex'' \<in> set S)"
    by simp
  from invalid_category_becomes_missing[OF unknown_sex_reconciling f unknown_sex_columns(1) _ d c]
    unknown_sex_reconciling f unknown_sex_columns(1) d s
  show ?thesis by simp
qed

text \<open>
  Claim C2 at an input where it fails. The table has distinct labels, one of them
  \<^verbatim>\<open>Mjob_teacher\<close>; one-hot encoding adds a second column of that label, and
  indexing by the training columns \<^verbatim>\<open>[Medu, Mjob_teacher]\<close> returns both: three
  columns for two training columns.
\<close>

theorem schema_columns_failing_input:
  "well_formed colliding_students
   \<and> preprocess_data colliding_students (Some [''Medu'', ''Mjob_teacher'']) = Inr colliding_encoded
   \<and> colnames colliding_encoded = [''Medu'', ''Mjob_teacher'', ''Mjob_teacher'']
   \<and> length (colnames colliding_encoded) = 3"
  by (simp add: colliding_encoding)
     (simp add: well_formed_def colliding_students_def colliding_encoded_def colnames_def)

lemma example_features_incomplete: "\<not> set required_fields \<subseteq> set example_features"
proof -
  have "''Mjob'' \<in> set required_fields"
    by (simp add: required_fields_def nominal_cols_def)
  moreover have "''Mjob'' \<notin> set example_features"
    by (simp add: example_features_def)
  ultimately show ?thesis by blast
qed

theorem reencoding_counterexample:
  "preprocess_data (student_ideal 10) (Some example_features) = Inr student_encoded
   \<and> preprocess_data student_encoded (Some example_features) = Inl KeyError"
proof -
  have "colnames student_encoded = example_features"
    by (simp add: student_encoded_def colnames_def example_features_def)
  with example_features_incomplete
  have "preprocess_data student_encoded (Some example_features) = Inl KeyError"
    by (intro preprocess_data_missing_field) simp
  with student_encoding[of 10] show ?thesis by simp
qed

theorem reencoding_not_idempotent_witness:
  "preprocess_data student_unknown_sex (Some example_features) = Inr unknown_sex_reconciled
   \<and> \<not> set required_fields \<subseteq> set example_features
   \<and> preprocess_data unknown_sex_reconciled (Some example_features) = Inl KeyError
   \<and> preprocess_data student_unknown_sex None = Inr unknown_sex_encoded
   \<and> distinct (colnames unknown_sex_encoded) \<and> distinct example_features
   \<and> reconcile unknown_sex_reconciled example_features = Inr unknown_sex_reconciled"
proof -
  have d: "distinct (colnames unknown_sex_encoded)" "distinct example_features"
    by (simp_all add: unknown_sex_encoded_def colnames_def example_features_def)
  from reencoding_not_idempotent[OF unknown_sex_reconciling] example_features_incomplete
    unknown_sex_encoding unknown_sex_reconciling d
  show ?thesis by auto
qed

section \<open>Three students, one with no recorded grade\<close>

lemma three_ideal_table: "ideal_table three_students = three_ideal"
  by code_simp

lemma three_binary_mappings: "binary_mappings three_ideal = Inr three_mapped"
  by code_simp

lemma three_get_dummies:
  "and_then (get_dummies three_mapped nominal_cols) feature_engineering = Inr three_engineered"
  by code_simp

lemma three_reconcile: "reconcile three_engineered example_features = Inr three_encoded"
  by code_simp

lemma three_encoding: "preprocess_data three_ideal (Some example_features) = Inr three_encoded"
  by (simp add: preprocess_data_Some preprocess_data_None three_binary_mappings three_get_dummies
        three_reconcile)

lemma three_select: "select_columns three_students passthrough_cols = Inr three_passthrough"
  by code_simp

lemma three_dashboard_eval:
  assumes "model three_encoded = Inr [p1, p2, p3]"
  shows "generate_dashboard_data model example_features three_students
           = Inr (three_dashboard p1 p2 p3)"
  using assms
  by (simp add: generate_dashboard_data_unfold three_ideal_table three_encoding three_select
        setitem_array_def three_passthrough_def setitem_def colnames_def getitem_def
        py_truediv_def three_dashboard_def)

lemma three_students_columns:
  "getitem three_students ''FinalGrade'' = Inr [FloatV 10, NaN, FloatV 18]"
  "getitem three_students ''StudentID'' = Inr [IntV 1, IntV 2, IntV 3]"
  "getitem three_students ''FirstName'' = Inr [StrV ''Ada'', StrV ''Bob'', StrV ''Cleo'']"
  "getitem three_students ''FamilyName'' = Inr [StrV ''Byron'', StrV ''Carter'', StrV ''Diaz'']"
  "nrows three_students = 3"
  by (simp_all add: three_students_def getitem_def)

lemma three_dashboard_columns:
  "getitem (three_dashboard p1 p2 p3) ''Potential_Grade''
     = Inr [FloatV (np_round2 p1), FloatV (np_round2 p2), FloatV (np_round2 p3)]"
  "getitem (three_dashboard p1 p2 p3) ''Improvability_Margin''
     = Inr [FloatV (max (np_round2 p1 - 10) 0), NaN, FloatV (max (np_round2 p3 - 18) 0)]"
  "getitem (three_dashboard p1 p2 p3) ''Complexity_Score''
     = Inr [FloatV (1 - max (np_round2 p1 - 10) 0 / 20), NaN,
            FloatV (1 - max (np_round2 p3 - 18) 0 / 20)]"
  "getitem (three_dashboard p1 p2 p3) ''StudentID'' = Inr [IntV 1, IntV 2, IntV 3]"
  "getitem (three_dashboard p1 p2 p3) ''FirstName'' = Inr [StrV ''Ada'', StrV ''Bob'', StrV ''Cleo'']"
  "getitem (three_dashboard p1 p2 p3) ''FamilyName''
     = Inr [StrV ''Byron'', StrV ''Carter'', StrV ''Diaz'']"
  "getitem (three_dashboard p1 p2 p3) ''FinalGrade'' = Inr [FloatV 10, NaN, FloatV 18]"
  "nrows (three_dashboard p1 p2 p3) = 3"
  by (simp_all add: three_dashboard_def getitem_def)

lemma three_dashboard_run:
  "generate_dashboard_data (\<lambda>X. Inr [14, 13, 15]) example_features three_students
     = Inr (three_dashboard 14 13 15)"
  by (rule three_dashboard_eval) simp

text \<open>
  The second student has no recorded grade. The run succeeds, and that student's margin
  is missing: it is not \<open>max 0 (13 - a)\<close> for any grade \<open>a\<close>, and it is not a
  number that is at least 0.
\<close>

theorem improvability_margin_counterexample:
  "generate_dashboard_data (\<lambda>X. Inr [14, 13, 15]) example_features three_students
     = Inr (three_dashboard 14 13 15)
   \<and> getitem three_students ''FinalGrade'' = Inr [FloatV 10, NaN, FloatV 18]
   \<and> grade_value ([FloatV 10, NaN, FloatV 18] ! 1) = None
   \<and> getitem (three_dashboard 14 13 15) ''Potential_Grade'' = Inr [FloatV 14, FloatV 13, FloatV 15]
   \<and> getitem (three_dashboard 14 13 15) ''Improvability_Margin'' = Inr [FloatV 4, NaN, FloatV 0]
   \<and> [FloatV 4, NaN, FloatV 0] ! 1 = NaN
   \<and> grade_value ([FloatV 4, NaN, FloatV 0] ! 1) = None"
  by (simp add: three_dashboard_run three_students_columns three_dashboard_columns
        np_round2_examples)

text \<open>
  The third student has the grade 18 and the potential 15: the margin is
  \<open>max 0 (15 - 18) = 0\<close>.
\<close>

theorem improvability_margin_clipped_witness:
  "generate_dashboard_data (\<lambda>X. Inr [14, 13, 15]) example_features three_students
     = Inr (three_dashboard 14 13 15)
   \<and> getitem three_students ''FinalGrade'' = Inr [FloatV 10, NaN, FloatV 18]
   \<and> 2 < nrows three_students \<and> 2 < length [FloatV 10, NaN, FloatV 18]
   \<and> getitem (three_dashboard 14 13 15) ''Potential_Grade'' = Inr [FloatV 14, FloatV 13, FloatV 15]
   \<and> getitem (three_dashboard 14 13 15) ''Improvability_Margin'' = Inr [FloatV 4, NaN, FloatV 0]
   \<and> grade_value ([FloatV 10, NaN, FloatV 18] ! 2) = Some 18
   \<and> [FloatV 4, NaN, FloatV 0] ! 2 = FloatV (max 0 (15 - 18))
   \<and> (\<exists>potential margin p.
           getitem (three_dashboard 14 13 15) ''Potential_Grade'' = Inr potential
         \<and> getitem (three_dashboard 14 13 15) ''Improvability_Margin'' = Inr margin
         \<and> 2 < length potential \<and> 2 < length margin
         \<and> potential ! 2 = FloatV p
         \<and> ((\<exists>a. grade_value ([FloatV 10, NaN, FloatV 18] ! 2) = Some a
                  \<and> margin ! 2 = FloatV (max 0 (p - a)) \<and> 0 \<le> max 0 (p - a))
              \<or> ([FloatV 10, NaN, FloatV 18] ! 2 = NaN \<and> margin ! 2 = NaN)))"
proof -
  have n: "2 < nrows three_students" "2 < length [FloatV 10, NaN, FloatV 18]"
    by (simp_all add: three_students_columns)
  have c: "getitem (three_dashboard 14 13 15) ''Potential_Grade'' = Inr [FloatV 14, FloatV 13, FloatV 15]"
    "getitem (three_dashboard 14 13 15) ''Improvability_Margin'' = Inr [FloatV 4, NaN, FloatV 0]"
    by (simp_all add: three_dashboard_columns np_round2_examples)
  have v: "grade_value ([FloatV 10, NaN, FloatV 18] ! 2) = Some 18"
    "[FloatV 4, NaN, FloatV 0] ! 2 = FloatV (max 0 (15 - 18))"
    by simp_all
  from improvability_margin_clipped[OF three_dashboard_run three_students_columns(1) n]
    three_dashboard_run three_students_columns(1) n c v
  show ?thesis by blast
qed

text \<open>
  A prediction that is not a multiple of 0.01: the first student's prediction
  \<open>7297 / 512 = 14.251953125\<close> is shown as 14.25, the margin is \<open>14.25 - 10 = 4.25\<close>
  and the score \<open>1 - 4.25 / 20 = 0.7875\<close>, both computed from the rounded value.
\<close>

theorem potential_grade_rounded_witness:
  "generate_dashboard_data (\<lambda>X. Inr [7297 / 512, 13, 15]) example_features three_students
      = Inr (three_dashboard (7297 / 512) 13 15)
   \<and> getitem (three_dashboard (7297 / 512) 13 15) ''Potential_Grade''
        = Inr [FloatV (57 / 4), FloatV 13, FloatV 15]
   \<and> getitem (three_dashboard (7297 / 512) 13 15) ''Improvability_Margin''
        = Inr [FloatV (17 / 4), NaN, FloatV 0]
   \<and> getitem (three_dashboard (7297 / 512) 13 15) ''Complexity_Score''
        = Inr [FloatV (63 / 80), NaN, FloatV 1]
   \<and> (\<exists>X preds. preprocess_data (ideal_table three_students) (Some example_features) = Inr X
         \<and> (\<lambda>X. Inr [7297 / 512, 13, 15]) X = (Inr preds :: pyerr + rat list)
         \<and> getitem (three_dashboard (7297 / 512) 13 15) ''Potential_Grade''
              = Inr (map (\<lambda>p. FloatV (np_round2 p)) preds))"
proof -
  have g: "generate_dashboard_data (\<lambda>X. Inr [7297 / 512, 13, 15]) example_features three_students
      = Inr (three_dashboard (7297 / 512) 13 15)"
    by (rule three_dashboard_eval) simp
  from potential_grade_rounded[OF g]
  have "\<exists>X preds. preprocess_data (ideal_table three_students) (Some example_features) = Inr X
         \<and> (\<lambda>X. Inr [7297 / 512, 13, 15]) X = (Inr preds :: pyerr + rat list)
         \<and> getitem (three_dashboard (7297 / 512) 13 15) ''Potential_Grade''
              = Inr (map (\<lambda>p. FloatV (np_round2 p)) preds)"
    by blast
  moreover have "getitem (three_dashboard (7297 / 512) 13 15) ''Potential_Grade''
        = Inr [FloatV (57 / 4), FloatV 13, FloatV 15]"
    "getitem (three_dashboard (7297 / 512) 13 15) ''Improvability_Margin''
        = Inr [FloatV (17 / 4), NaN, FloatV 0]"
    "getitem (three_dashboard (7297 / 512) 13 15) ''Complexity_Score''
        = Inr [FloatV (63 / 80), NaN, FloatV 1]"
    by (simp_all add: three_dashboard_columns np_round2_examples)
  ultimately show ?thesis
    using g by blast
qed

text \<open>
  Three rows in, three rows out, each student on the row it had in the input.
\<close>

theorem dashboard_rows_preserved_witness:
  "generate_dashboard_data (\<lambda>X. Inr [14, 13, 15]) example_features three_students
      = Inr (three_dashboard 14 13 15)
   \<and> well_formed three_students
   \<and> nrows three_students = 3
   \<and> well_formed (three_dashboard 14 13 15)
   \<and> nrows (three_dashboard 14 13 15) = nrows three_students
   \<and> colnames (three_dashboard 14 13 15) = dashboard_cols
   \<and> getitem (three_dashboard 14 13 15) ''StudentID'' = getitem three_students ''StudentID''
   \<and> getitem (three_dashboard 14 13 15) ''FirstName'' = getitem three_students ''FirstName''
   \<and> getitem (three_dashboard 14 13 15) ''FamilyName'' = getitem three_students ''FamilyName''
   \<and> getitem (three_dashboard 14 13 15) ''FinalGrade'' = getitem three_students ''FinalGrade''
   \<and> getitem three_students ''StudentID'' = Inr [IntV 1, IntV 2, IntV 3]
   \<and> getitem three_students ''FirstName'' = Inr [StrV ''Ada'', StrV ''Bob'', StrV ''Cleo'']"
proof -
  have w: "well_formed three_students"
    by (simp add: well_formed_def three_students_def colnames_def)
  from dashboard_rows_preserved[OF three_dashboard_run w] three_dashboard_run w
  show ?thesis
    by (simp add: three_students_columns)
qed

end
